theory Spec2Isabelle
  imports Complex_Main "HOL-Library.AList" "HOL-Library.FSet" "HOL-Library.Char_ord"
    "HOL-Library.List_Lexorder"
begin

section \<open>CTF Sentinel: notification scheduling and state tracking (src/CTF.py)\<close>

text \<open>
  The development embeds the state-tracking core of \<^verbatim>\<open>src/CTF.py\<close>: the start-time parser,
  the four in-memory stores of \<^verbatim>\<open>CTFDataManager\<close> with their accessors, the feed refresh,
  the evaluation pass \<^verbatim>\<open>check_notification_triggers\<close>, the reset command and the
  save/load pairs.

  Conventions. A Python \<^verbatim>\<open>dict\<close> is an association list in insertion order
  (\<^const>\<open>map_of\<close> reads, \<^const>\<open>AList.update\<close> assigns: an existing key keeps its place, a new one
  goes last). Every exception of the source is a value \<open>Inl e\<close>; the stores are threaded
  explicitly, and a raised exception keeps the mutations made before it, as the global
  \<^verbatim>\<open>data_manager\<close> does. Strings are lists of 8-bit characters.
\<close>

subsection \<open>Python primitives: \<^verbatim>\<open>str(int)\<close> and \<^verbatim>\<open>int(str)\<close>\<close>

datatype py_error =
  ValueError | KeyError | AttributeError | TypeError | RequestException | DeliveryError

definition is_digit :: "char \<Rightarrow> bool" where
  "is_digit c = (CHR ''0'' \<le> c \<and> c \<le> CHR ''9'')"

definition digit_val :: "char \<Rightarrow> int" where
  "digit_val c = of_char c - 48"

definition digit_char :: "int \<Rightarrow> char" where
  "digit_char d = char_of (48 + d)"

text \<open>The value of a run of decimal digits, most significant first.\<close>

definition int_of_digits :: "string \<Rightarrow> int" where
  "int_of_digits s = foldl (\<lambda>a c. 10 * a + digit_val c) 0 s"

function digits_of_int :: "int \<Rightarrow> string" where
  "digits_of_int n =
     (if n < 10 then [digit_char n] else digits_of_int (n div 10) @ [digit_char (n mod 10)])"
  by pat_completeness auto
termination
  by (relation "measure nat") auto

text \<open>\<^verbatim>\<open>str(n)\<close> for a Python int: decimal, a minus sign for negatives.\<close>

definition py_str :: "int \<Rightarrow> string" where
  "py_str i = (if i < 0 then CHR ''-'' # digits_of_int (- i) else digits_of_int i)"

definition is_space :: "char \<Rightarrow> bool" where
  "is_space c = (c \<in> set [CHR '' '', CHR 0x09, CHR 0x0A, CHR 0x0B, CHR 0x0C, CHR 0x0D])"

definition strip :: "string \<Rightarrow> string" where
  "strip s = rev (dropWhile is_space (rev (dropWhile is_space s)))"

text \<open>
  The digit part of an integer literal: digits, with single underscores allowed between
  digits only.
\<close>

fun digit_run :: "string \<Rightarrow> bool" where
  "digit_run [] = False"
| "digit_run [c] = is_digit c"
| "digit_run (c # d # r) =
     (if is_digit c then
        (if d = CHR ''_'' then digit_run r else digit_run (d # r))
      else False)"

text \<open>
  \<^verbatim>\<open>int(s)\<close> for a string, base 10: surrounding whitespace stripped, an optional sign, then
  a digit run. \<open>None\<close> is \<^verbatim>\<open>ValueError\<close>.
\<close>

definition py_int :: "string \<Rightarrow> int option" where
  "py_int s =
     (let t = strip s;
          neg = (take 1 t = ''-'');
          body = (if take 1 t = ''-'' \<or> take 1 t = ''+'' then drop 1 t else t)
      in if digit_run body
         then (let n = int_of_digits (filter is_digit body) in Some (if neg then - n else n))
         else None)"

subsection \<open>\<^verbatim>\<open>datetime.strptime\<close> for the four formats the parser tries\<close>

text \<open>
  \<^verbatim>\<open>strptime\<close> compiles a format into a regular expression (case-insensitive), takes the
  first match in backtracking order with \<^verbatim>\<open>re.match\<close>, raises \<^verbatim>\<open>ValueError\<close> when there is
  none or when it does not reach the end of the string, converts the groups with
  \<^verbatim>\<open>int\<close> and builds the \<^verbatim>\<open>datetime\<close>, whose constructor raises \<^verbatim>\<open>ValueError\<close> on a field out
  of range. A matcher lists every way to match a prefix, in the order the backtracking
  engine tries them, as pairs (matched text, rest).
\<close>

type_synonym matcher = "string \<Rightarrow> (string \<times> string) list"

definition m_cls :: "(char \<Rightarrow> bool) \<Rightarrow> matcher" where
  "m_cls P s = (case s of [] \<Rightarrow> [] | c # r \<Rightarrow> if P c then [([c], r)] else [])"

definition m_seq :: "matcher \<Rightarrow> matcher \<Rightarrow> matcher" where
  "m_seq p q s = concat (map (\<lambda>(a, r). map (\<lambda>(b, r'). (a @ b, r')) (q r)) (p s))"

definition m_alt :: "matcher \<Rightarrow> matcher \<Rightarrow> matcher" where
  "m_alt p q s = p s @ q s"

definition m_opt :: "matcher \<Rightarrow> matcher" where
  "m_opt p s = p s @ [([], s)]"

definition m_chr :: "char \<Rightarrow> matcher" where
  "m_chr c = m_cls (\<lambda>x. x = c)"

definition m_rng :: "char \<Rightarrow> char \<Rightarrow> matcher" where
  "m_rng lo hi = m_cls (\<lambda>x. lo \<le> x \<and> x \<le> hi)"

definition m_dig :: matcher where
  "m_dig = m_cls is_digit"

text \<open>The directives, as \<^verbatim>\<open>_strptime.TimeRE\<close> writes them.\<close>

definition re_Y :: matcher where \<comment> \<open>\<^verbatim>\<open>\d\d\d\d\<close>\<close>
  "re_Y = m_seq m_dig (m_seq m_dig (m_seq m_dig m_dig))"

definition re_m :: matcher where \<comment> \<open>\<^verbatim>\<open>1[0-2]|0[1-9]|[1-9]\<close>\<close>
  "re_m = m_alt (m_seq (m_chr CHR ''1'') (m_rng CHR ''0'' CHR ''2''))
         (m_alt (m_seq (m_chr CHR ''0'') (m_rng CHR ''1'' CHR ''9''))
                (m_rng CHR ''1'' CHR ''9''))"

definition re_d :: matcher where \<comment> \<open>\<^verbatim>\<open>3[0-1]|[1-2]\d|0[1-9]|[1-9]| [1-9]\<close>\<close>
  "re_d = m_alt (m_seq (m_chr CHR ''3'') (m_rng CHR ''0'' CHR ''1''))
         (m_alt (m_seq (m_rng CHR ''1'' CHR ''2'') m_dig)
         (m_alt (m_seq (m_chr CHR ''0'') (m_rng CHR ''1'' CHR ''9''))
         (m_alt (m_rng CHR ''1'' CHR ''9'')
                (m_seq (m_chr CHR '' '') (m_rng CHR ''1'' CHR ''9'')))))"

definition re_H :: matcher where \<comment> \<open>\<^verbatim>\<open>2[0-3]|[0-1]\d|\d\<close>\<close>
  "re_H = m_alt (m_seq (m_chr CHR ''2'') (m_rng CHR ''0'' CHR ''3''))
         (m_alt (m_seq (m_rng CHR ''0'' CHR ''1'') m_dig) m_dig)"

definition re_M :: matcher where \<comment> \<open>\<^verbatim>\<open>[0-5]\d|\d\<close>\<close>
  "re_M = m_alt (m_seq (m_rng CHR ''0'' CHR ''5'') m_dig) m_dig"

definition re_S :: matcher where \<comment> \<open>\<^verbatim>\<open>6[0-1]|[0-5]\d|\d\<close>\<close>
  "re_S = m_alt (m_seq (m_chr CHR ''6'') (m_rng CHR ''0'' CHR ''1''))
         (m_alt (m_seq (m_rng CHR ''0'' CHR ''5'') m_dig) m_dig)"

definition re_frac :: matcher where \<comment> \<open>\<^verbatim>\<open>\d{1,6}\<close>, greedy\<close>
  "re_frac = m_seq m_dig (m_opt (m_seq m_dig (m_opt (m_seq m_dig (m_opt (m_seq m_dig
               (m_opt (m_seq m_dig (m_opt m_dig)))))))))"

definition re_z :: matcher where
  \<comment> \<open>\<^verbatim>\<open>[+-]\d\d:?[0-5]\d(:?[0-5]\d(\.\d{1,6})?)?|(?-i:Z)\<close>\<close>
  "re_z = m_alt
     (m_seq (m_cls (\<lambda>x. x = CHR ''+'' \<or> x = CHR ''-''))
     (m_seq m_dig (m_seq m_dig (m_seq (m_opt (m_chr CHR '':''))
     (m_seq (m_rng CHR ''0'' CHR ''5'') (m_seq m_dig
       (m_opt (m_seq (m_opt (m_chr CHR '':'')) (m_seq (m_rng CHR ''0'' CHR ''5'') (m_seq m_dig
          (m_opt (m_seq (m_chr CHR ''.'') re_frac))))))))))))
     (m_chr CHR ''Z'')"

definition re_T :: matcher where \<comment> \<open>the literal \<^verbatim>\<open>T\<close>, matched ignoring case\<close>
  "re_T = m_cls (\<lambda>x. x = CHR ''T'' \<or> x = CHR ''t'')"

text \<open>The groups of \<^verbatim>\<open>%Y-%m-%dT%H:%M:%S\<close>, each with the rest of the input.\<close>

type_synonym core_groups = "string \<times> string \<times> string \<times> string \<times> string \<times> string"

definition re_core :: "string \<Rightarrow> (core_groups \<times> string) list" where
  "re_core s =
     [((Y, m, d, H, M, S), r11).
        (Y, r1) \<leftarrow> re_Y s, (x1, r2) \<leftarrow> m_chr CHR ''-'' r1,
        (m, r3) \<leftarrow> re_m r2, (x2, r4) \<leftarrow> m_chr CHR ''-'' r3,
        (d, r5) \<leftarrow> re_d r4, (x3, r6) \<leftarrow> re_T r5,
        (H, r7) \<leftarrow> re_H r6, (x4, r8) \<leftarrow> m_chr CHR '':'' r7,
        (M, r9) \<leftarrow> re_M r8, (x5, r10) \<leftarrow> m_chr CHR '':'' r9,
        (S, r11) \<leftarrow> re_S r10]"

datatype time_format =
    Fmt_S_z      \<comment> \<open>\<^verbatim>\<open>%Y-%m-%dT%H:%M:%S%z\<close>\<close>
  | Fmt_S_f_z    \<comment> \<open>\<^verbatim>\<open>%Y-%m-%dT%H:%M:%S.%f%z\<close>\<close>
  | Fmt_S        \<comment> \<open>\<^verbatim>\<open>%Y-%m-%dT%H:%M:%S\<close>\<close>
  | Fmt_S_f      \<comment> \<open>\<^verbatim>\<open>%Y-%m-%dT%H:%M:%S.%f\<close>\<close>

text \<open>
  All matches of a format: the core groups, the \<^verbatim>\<open>%f\<close> group, the \<^verbatim>\<open>%z\<close> group (empty
  when the format has none) and the unmatched rest.
\<close>

fun format_regex :: "time_format \<Rightarrow> string \<Rightarrow> (core_groups \<times> string \<times> string \<times> string) list" where
  "format_regex Fmt_S s = [(g, [], [], r). (g, r) \<leftarrow> re_core s]"
| "format_regex Fmt_S_z s = [(g, [], z, r'). (g, r) \<leftarrow> re_core s, (z, r') \<leftarrow> re_z r]"
| "format_regex Fmt_S_f s =
     [(g, f, [], r''). (g, r) \<leftarrow> re_core s, (x, r') \<leftarrow> m_chr CHR ''.'' r, (f, r'') \<leftarrow> re_frac r']"
| "format_regex Fmt_S_f_z s =
     [(g, f, z, r3). (g, r) \<leftarrow> re_core s, (x, r') \<leftarrow> m_chr CHR ''.'' r,
                     (f, r'') \<leftarrow> re_frac r', (z, r3) \<leftarrow> re_z r'']"

text \<open>
  A \<^verbatim>\<open>datetime\<close>: the civil fields and \<^verbatim>\<open>tzinfo\<close>, \<open>None\<close> for a naive value, otherwise the
  offset from UTC in microseconds.
\<close>

record datetime =
  year :: int
  month :: int
  day :: int
  hour :: int
  minute :: int
  second :: int
  microsecond :: int
  tzinfo :: "int option"

definition is_leap :: "int \<Rightarrow> bool" where
  "is_leap y = (y mod 4 = 0 \<and> (y mod 100 \<noteq> 0 \<or> y mod 400 = 0))"

definition days_in_month :: "int \<Rightarrow> int \<Rightarrow> int" where
  "days_in_month y m =
     (if m = 2 then (if is_leap y then 29 else 28)
      else if m \<in> {4, 6, 9, 11} then 30 else 31)"

text \<open>
  The \<^verbatim>\<open>%z\<close> group as an offset in microseconds, following \<^verbatim>\<open>_strptime\<close>: a colon after the
  hours must be matched by one before the seconds. \<open>None\<close> is \<^verbatim>\<open>ValueError\<close>, also for an
  offset that \<^verbatim>\<open>timezone\<close> refuses (24 hours or more).
\<close>

definition all_digits :: "string \<Rightarrow> bool" where
  "all_digits s = (s \<noteq> [] \<and> list_all is_digit s)"

definition gmtoff_of :: "string \<Rightarrow> int option" where
  "gmtoff_of z0 =
     (if z0 = ''Z'' then Some 0
      else
        let colon = (take 1 (drop 3 z0) = '':'');
            z1 = (if colon then take 3 z0 @ drop 4 z0 else z0);
            long = (colon \<and> length z1 > 5)
        in if long \<and> take 1 (drop 5 z1) \<noteq> '':'' then None
           else
             let z = (if long then take 5 z1 @ drop 6 z1 else z1);
                 hh = take 2 (drop 1 z); mm = take 2 (drop 3 z); ss = take 2 (drop 5 z);
                 rem = drop 8 z
             in if \<not> (all_digits hh \<and> all_digits mm \<and> (ss = [] \<or> all_digits ss)
                       \<and> list_all is_digit rem) then None
                else
                  let secs = int_of_digits hh * 3600 + int_of_digits mm * 60 + int_of_digits ss;
                      frac = int_of_digits (rem @ replicate (6 - length rem) CHR ''0'');
                      off = secs * 1000000 + frac;
                      off' = (if take 1 z = ''-'' then - off else off)
                  in if - 86400000000 < off' \<and> off' < 86400000000 then Some off' else None)"

text \<open>\<^verbatim>\<open>int\<close> of a group; the day group may start with a space, which \<^verbatim>\<open>int\<close> strips.\<close>

definition group_val :: "string \<Rightarrow> int" where
  "group_val g = int_of_digits (filter is_digit g)"

definition strptime :: "string \<Rightarrow> time_format \<Rightarrow> datetime option" where
  "strptime s fmt =
     (case format_regex fmt s of
        [] \<Rightarrow> None
      | ((Y, m, d, H, M, S), f, z, rest) # others \<Rightarrow>
          if rest \<noteq> [] then None
          else
            let tz = (if z = [] then Some None else map_option Some (gmtoff_of z));
                y = group_val Y; mo = group_val m; dd = group_val d; sec = group_val S
            in (case tz of
                  None \<Rightarrow> None
                | Some tzi \<Rightarrow>
                    if y < 1 \<or> days_in_month y mo < dd \<or> 59 < sec then None
                    else Some \<lparr> year = y, month = mo, day = dd, hour = group_val H,
                                minute = group_val M, second = sec,
                                microsecond = int_of_digits (f @ replicate (6 - length f) CHR ''0''),
                                tzinfo = tzi \<rparr>))"

text \<open>
  Days from 1970-01-01 to a civil date, as \<^verbatim>\<open>date.toordinal\<close> computes it (proleptic
  Gregorian calendar; the ordinal of 1970-01-01 is 719163).
\<close>

definition days_before_year :: "int \<Rightarrow> int" where
  "days_before_year y =
     (let p = y - 1 in p * 365 + p div 4 - p div 100 + p div 400)"

definition days_before_month :: "int \<Rightarrow> int \<Rightarrow> int" where
  "days_before_month y m = sum_list (map (days_in_month y) [1..m - 1])"

definition toordinal :: "datetime \<Rightarrow> int" where
  "toordinal dt = days_before_year (year dt) + days_before_month (year dt) (month dt) + day dt"

text \<open>
  \<^verbatim>\<open>int(dt.timestamp())\<close> for an aware \<^verbatim>\<open>datetime\<close> at offset \<open>off\<close> (microseconds): the
  microseconds since the epoch, divided by \<open>10\<^sup>6\<close> and truncated toward zero. Python divides
  in double precision; the quotient is exact whenever the microsecond count is a multiple
  of \<open>10\<^sup>6\<close>, which is every start time without a fraction of a second.
\<close>

definition epoch_microseconds :: "datetime \<Rightarrow> int \<Rightarrow> int" where
  "epoch_microseconds dt off =
     (((toordinal dt - 719163) * 86400 + hour dt * 3600 + minute dt * 60 + second dt)
        * 1000000 + microsecond dt) - off"

definition int_timestamp :: "datetime \<Rightarrow> int \<Rightarrow> int" where
  "int_timestamp dt off =
     (let us = epoch_microseconds dt off
      in if us < 0 then - ((- us) div 1000000) else us div 1000000)"

subsection \<open>\<^verbatim>\<open>parse_ctf_time_to_timestamp\<close>\<close>

text \<open>
  The argument is \<^verbatim>\<open>event.get('start')\<close>: \<open>None\<close> when the key is missing. The loop over
  the four formats returns at the first that parses; a naive result is made UTC
  (\<^verbatim>\<open>dt.replace(tzinfo=timezone.utc)\<close>, offset 0). When all four fail, the first 19
  characters are parsed with the plain format and read as UTC.
\<close>

definition utc_if_naive :: "datetime \<Rightarrow> int" where
  "utc_if_naive dt = (case tzinfo dt of None \<Rightarrow> 0 | Some off \<Rightarrow> off)"

fun try_formats :: "string \<Rightarrow> time_format list \<Rightarrow> int option" where
  "try_formats s [] = None"
| "try_formats s (fmt # fmts) =
     (case strptime s fmt of
        Some dt \<Rightarrow> Some (int_timestamp dt (utc_if_naive dt))
      | None \<Rightarrow> try_formats s fmts)"

definition time_formats :: "time_format list" where
  "time_formats = [Fmt_S_z, Fmt_S_f_z, Fmt_S, Fmt_S_f]"

definition parse_ctf_time_to_timestamp :: "string option \<Rightarrow> int option" where
  "parse_ctf_time_to_timestamp time_str =
     (case time_str of
        None \<Rightarrow> None
      | Some s \<Rightarrow>
          if s = [] then None
          else (case try_formats s time_formats of
                  Some ts \<Rightarrow> Some ts
                | None \<Rightarrow>
                    (case strptime (take 19 s) Fmt_S of
                       Some dt \<Rightarrow> Some (int_timestamp dt 0)
                     | None \<Rightarrow> None)))"


subsection \<open>Events, tenant configuration and the stores of \<^verbatim>\<open>CTFDataManager\<close>\<close>

text \<open>
  An event is a JSON object of the feed; the fields are the keys the code reads, \<open>None\<close>
  for a missing key.
\<close>

record event =
  ev_title :: "string option"
  ev_id :: "int option"
  ev_start :: "string option"
  ev_finish :: "string option"
  ev_description :: "string option"
  ev_url :: "string option"

definition get_ctf_id :: "event \<Rightarrow> string" where
  "get_ctf_id e =
     (case ev_title e of None \<Rightarrow> ''ctf'' | Some t \<Rightarrow> t) @ ''_'' @
     (case ev_id e of None \<Rightarrow> ''unk'' | Some i \<Rightarrow> py_str i)"

datatype setting = SBool bool | SInt int | SRoles "int list"

text \<open>Python truthiness of a setting read with \<^verbatim>\<open>.get\<close>; \<open>None\<close> is Python's \<^verbatim>\<open>None\<close>.\<close>

fun truthy :: "setting option \<Rightarrow> bool" where
  "truthy None = False"
| "truthy (Some (SBool b)) = b"
| "truthy (Some (SInt i)) = (i \<noteq> 0)"
| "truthy (Some (SRoles r)) = (r \<noteq> [])"

definition DEFAULT_CONFIG :: "(string \<times> setting) list" where
  "DEFAULT_CONFIG =
     [(''api_check_interval'', SInt 15), (''notification_check_interval'', SInt 15),
      (''notification_24h'', SBool True), (''notification_1h'', SBool True),
      (''auto_archive'', SBool True), (''archive_delay'', SInt 60),
      (''admin_roles'', SRoles [])]"

definition DEFAULT_CTF_CREDENTIALS :: "(string \<times> string) list" where
  "DEFAULT_CTF_CREDENTIALS =
     [(''user'', ''Not-Set''), (''pass'', ''random''), (''email'', ''Not-Set@gmail.com'')]"

record guild_config =
  setup_complete :: bool
  channel_id :: "int option"
  settings :: "(string \<times> setting) list"
  ctf_channels :: "(string \<times> int) list"
  ctf_credentials :: "(string \<times> string) list"

text \<open>
  A key of \<^verbatim>\<open>sent_notifications\<close> is whatever the code stores under: the accessors use the
  \<^verbatim>\<open>int\<close> guild id, the reset command \<^verbatim>\<open>str(gid)\<close>. In Python \<^verbatim>\<open>5\<close> and \<^verbatim>\<open>"5"\<close> are different
  keys. The value under a kind is a \<^verbatim>\<open>set\<close> (accessors, load) or a \<^verbatim>\<open>list\<close> (reset).
\<close>

datatype pykey = IntKey int | StrKey string

datatype id_coll = PySet "string fset" | PyList "string list"

type_synonym notification_record = "(string \<times> id_coll) list"

record 'st data_manager =
  ctf_cache :: "(string \<times> event) list"
  guild_configs :: "(int \<times> guild_config) list"
  sent_notifications :: "(pykey \<times> notification_record) list"
  guild_ctf_status :: "(int \<times> 'st) list"

text \<open>\<^verbatim>\<open>x in c\<close> for a set or a list.\<close>

fun coll_member :: "string \<Rightarrow> id_coll \<Rightarrow> bool" where
  "coll_member x (PySet S) = (x |\<in>| S)"
| "coll_member x (PyList xs) = (x \<in> set xs)"

definition empty_notifications :: notification_record where
  "empty_notifications =
     [(''24h'', PySet {||}), (''1h'', PySet {||}), (''channel_1h'', PySet {||}),
      (''archived'', PySet {||})]"

definition get_guild_notifications ::
  "int \<Rightarrow> 'st data_manager \<Rightarrow> notification_record \<times> 'st data_manager" where
  "get_guild_notifications guild_id dm =
     (case map_of (sent_notifications dm) (IntKey guild_id) of
        Some r \<Rightarrow> (r, dm)
      | None \<Rightarrow>
          (empty_notifications,
           dm\<lparr>sent_notifications :=
                 AList.update (IntKey guild_id) empty_notifications (sent_notifications dm)\<rparr>))"

definition has_notification_been_sent ::
  "int \<Rightarrow> string \<Rightarrow> string \<Rightarrow> 'st data_manager \<Rightarrow> (py_error + bool) \<times> 'st data_manager" where
  "has_notification_been_sent guild_id ctf_id notification_type dm =
     (case get_guild_notifications guild_id dm of
        (guild_notifications, dm') \<Rightarrow>
          (case map_of guild_notifications notification_type of
             None \<Rightarrow> (Inl KeyError, dm')
           | Some c \<Rightarrow> (Inr (coll_member ctf_id c), dm')))"

text \<open>\<^verbatim>\<open>.add\<close> exists on a set only: on a list it is \<^verbatim>\<open>AttributeError\<close>.\<close>

definition mark_notification_sent ::
  "int \<Rightarrow> string \<Rightarrow> string \<Rightarrow> 'st data_manager \<Rightarrow> (py_error + unit) \<times> 'st data_manager" where
  "mark_notification_sent guild_id ctf_id notification_type dm =
     (case get_guild_notifications guild_id dm of
        (guild_notifications, dm') \<Rightarrow>
          (case map_of guild_notifications notification_type of
             None \<Rightarrow> (Inl KeyError, dm')
           | Some (PyList xs) \<Rightarrow> (Inl AttributeError, dm')
           | Some (PySet S) \<Rightarrow>
               (Inr (),
                dm'\<lparr>sent_notifications :=
                      AList.update (IntKey guild_id)
                        (AList.update notification_type (PySet (finsert ctf_id S))
                           guild_notifications)
                        (sent_notifications dm')\<rparr>)))"

definition default_guild_config :: guild_config where
  "default_guild_config =
     \<lparr> setup_complete = False, channel_id = None, settings = DEFAULT_CONFIG,
       ctf_channels = [], ctf_credentials = DEFAULT_CTF_CREDENTIALS \<rparr>"

definition get_guild_config :: "int \<Rightarrow> 'st data_manager \<Rightarrow> guild_config \<times> 'st data_manager" where
  "get_guild_config guild_id dm =
     (case map_of (guild_configs dm) guild_id of
        Some c \<Rightarrow> (c, dm)
      | None \<Rightarrow>
          (default_guild_config,
           dm\<lparr>guild_configs := AList.update guild_id default_guild_config (guild_configs dm)\<rparr>))"

definition is_guild_setup_complete :: "int \<Rightarrow> 'st data_manager \<Rightarrow> bool \<times> 'st data_manager" where
  "is_guild_setup_complete guild_id dm =
     (case get_guild_config guild_id dm of (c, dm') \<Rightarrow> (setup_complete c, dm'))"

definition get_guild_channel_id ::
  "int \<Rightarrow> 'st data_manager \<Rightarrow> int option \<times> 'st data_manager" where
  "get_guild_channel_id guild_id dm =
     (case is_guild_setup_complete guild_id dm of
        (done, dm1) \<Rightarrow>
          if \<not> done then (None, dm1)
          else (case get_guild_config guild_id dm1 of (c, dm2) \<Rightarrow> (channel_id c, dm2)))"

definition get_guild_setting ::
  "int \<Rightarrow> string \<Rightarrow> 'st data_manager \<Rightarrow> setting option \<times> 'st data_manager" where
  "get_guild_setting guild_id setting dm =
     (case get_guild_config guild_id dm of
        (c, dm') \<Rightarrow>
          ((case map_of (settings c) setting of
              Some v \<Rightarrow> Some v
            | None \<Rightarrow> map_of DEFAULT_CONFIG setting), dm'))"

text \<open>\<^verbatim>\<open>int(gid)\<close> is the identity on the \<^verbatim>\<open>int\<close> keys of \<^verbatim>\<open>guild_configs\<close>.\<close>

definition get_setup_guilds :: "'st data_manager \<Rightarrow> int list" where
  "get_setup_guilds dm = map fst (filter (\<lambda>(gid, cfg). setup_complete cfg) (guild_configs dm))"

subsection \<open>Collaborators\<close>

text \<open>
  The chat client, as far as the pass consults it: whether \<^verbatim>\<open>bot.get_guild\<close> and
  \<^verbatim>\<open>bot.get_channel\<close> find their target, and whether \<^verbatim>\<open>channel.send\<close> to a channel (for an
  event and a kind) delivers or raises.
\<close>

record bot =
  get_guild :: "int \<Rightarrow> bool"
  get_channel :: "int \<Rightarrow> bool"
  channel_send :: "int \<Rightarrow> string \<Rightarrow> string \<Rightarrow> bool"

text \<open>
  Modelled from the spec: \<^verbatim>\<open>should_send_notification\<close> and \<^verbatim>\<open>is_ctf_joined\<close> are called by
  \<^verbatim>\<open>check_notification_triggers\<close> but defined nowhere in \<^verbatim>\<open>src/CTF.py\<close>. The spec (sections 3
  and 4.1) makes them reads of the per-tenant participation record, the store
  \<^verbatim>\<open>guild_ctf_status\<close>. The pass takes them as parameters: any two functions of that store,
  the tenant and the event key. The type \<open>'st\<close> of a tenant's participation data is left
  open likewise.
\<close>

record 'st participation_api =
  should_send_notification :: "(int \<times> 'st) list \<Rightarrow> int \<Rightarrow> string \<Rightarrow> bool"
  is_ctf_joined :: "(int \<times> 'st) list \<Rightarrow> int \<Rightarrow> string \<Rightarrow> bool"

text \<open>
  Modelled from the spec: the participation record as section 3 describes it, per tenant
  and event key one of untouched (no entry), joined or skipped; primary notifications are
  suppressed for a joined or skipped pair (section 4.1, step 2). Used for concrete runs only.
\<close>

datatype participation = Joined | Skipped

definition spec_participation :: "(string \<times> participation) list participation_api" where
  "spec_participation =
     \<lparr> should_send_notification =
         (\<lambda>st gid cid. case map_of st gid of None \<Rightarrow> True | Some d \<Rightarrow> map_of d cid = None),
       is_ctf_joined =
         (\<lambda>st gid cid. case map_of st gid of None \<Rightarrow> False
                        | Some d \<Rightarrow> map_of d cid = Some Joined) \<rparr>"

text \<open>
  What an observer of the pass sees, in order: a call of \<^verbatim>\<open>channel.send\<close> (channel, tenant,
  event key, kind), made whether or not it then raises, and the recording of a tuple in the
  sent-set by \<^verbatim>\<open>mark_notification_sent\<close>.
\<close>

datatype effect = Send int int string string | Mark int string string

type_synonym ('st, 'a) outcome = "(py_error + 'a) \<times> 'st data_manager \<times> effect list"

subsection \<open>Delivery\<close>

text \<open>
  \<^verbatim>\<open>send_guild_notification\<close>: no channel, or a channel the client does not know, returns
  silently; building the embed reads \<^verbatim>\<open>event['title']\<close> (\<^verbatim>\<open>KeyError\<close> when missing); then
  \<^verbatim>\<open>channel.send\<close>, and after it \<^verbatim>\<open>mark_notification_sent\<close>.
\<close>

definition send_guild_notification ::
  "bot \<Rightarrow> int \<Rightarrow> string \<Rightarrow> event \<Rightarrow> string \<Rightarrow> 'st data_manager \<Rightarrow> ('st, unit) outcome" where
  "send_guild_notification B guild_id ctf_id ev kind dm =
     (case get_guild_channel_id guild_id dm of
        (None, dm1) \<Rightarrow> (Inr (), dm1, [])
      | (Some ch, dm1) \<Rightarrow>
          if ch = 0 then (Inr (), dm1, [])
          else if \<not> get_channel B ch then (Inr (), dm1, [])
          else if ev_title ev = None then (Inl KeyError, dm1, [])
          else if \<not> channel_send B ch ctf_id kind
            then (Inl DeliveryError, dm1, [Send ch guild_id ctf_id kind])
          else (case mark_notification_sent guild_id ctf_id kind dm1 of
                  (Inl e, dm2) \<Rightarrow> (Inl e, dm2, [Send ch guild_id ctf_id kind])
                | (Inr u, dm2) \<Rightarrow>
                    (Inr (), dm2, [Send ch guild_id ctf_id kind, Mark guild_id ctf_id kind])))"

text \<open>\<^verbatim>\<open>send_ctf_channel_reminder\<close>: \<open>True\<close> when the reminder went to the bound channel.\<close>

definition send_ctf_channel_reminder ::
  "bot \<Rightarrow> int \<Rightarrow> string \<Rightarrow> event \<Rightarrow> 'st data_manager \<Rightarrow> ('st, bool) outcome" where
  "send_ctf_channel_reminder B guild_id ctf_id ev dm =
     (case get_guild_config guild_id dm of
        (c, dm1) \<Rightarrow>
          (case map_of (ctf_channels c) ctf_id of
             None \<Rightarrow> (Inr False, dm1, [])
           | Some ch \<Rightarrow>
               if ch = 0 then (Inr False, dm1, [])
               else if \<not> get_channel B ch then (Inr False, dm1, [])
               else if ev_title ev = None then (Inl KeyError, dm1, [])
               else if \<not> channel_send B ch ctf_id ''channel_1h''
                 then (Inl DeliveryError, dm1, [Send ch guild_id ctf_id ''channel_1h''])
               else (Inr True, dm1, [Send ch guild_id ctf_id ''channel_1h''])))"

subsection \<open>The evaluation pass \<^verbatim>\<open>check_notification_triggers\<close>\<close>

text \<open>
  Time. \<open>now\<close> is \<^verbatim>\<open>datetime.now(timezone.utc)\<close> in microseconds since the epoch; the start is
  a whole number of seconds. \<^verbatim>\<open>(start_dt - now).total_seconds() / 3600\<close> is computed here
  exactly, as a rational. Python computes it in double precision; both divisions round
  monotonically and the bounds 0, 1.5, 23 and 25 hours are whole numbers of microseconds
  that doubles represent exactly, one microsecond away from them the quotient differs from
  the bound by far more than the rounding error, so the four comparisons of the source
  decide as the exact ones do.
\<close>

definition hours_until :: "int \<Rightarrow> int \<Rightarrow> rat" where
  "hours_until start_ts now = of_int (start_ts * 1000000 - now) / 3600000000"

text \<open>
  \<^verbatim>\<open>datetime.fromtimestamp(start_ts, timezone.utc)\<close> raises \<^verbatim>\<open>ValueError\<close> outside the years
  1 to 9999.
\<close>

definition fromtimestamp_ok :: "int \<Rightarrow> bool" where
  "fromtimestamp_ok ts = (- 62135596800 \<le> ts \<and> ts \<le> 253402300799)"

text \<open>The 1h branch (\<^verbatim>\<open>elif\<close>) of the primary checks.\<close>

definition check_1h ::
  "bot \<Rightarrow> int \<Rightarrow> string \<Rightarrow> event \<Rightarrow> rat \<Rightarrow> 'st data_manager \<Rightarrow> ('st, unit) outcome" where
  "check_1h B gid cid ev h dm =
     (if 0 < h \<and> h \<le> 3 / 2 then
        (case get_guild_setting gid ''notification_1h'' dm of
           (v, dm1) \<Rightarrow>
             if truthy v then
               (case has_notification_been_sent gid cid ''1h'' dm1 of
                  (Inl e, dm2) \<Rightarrow> (Inl e, dm2, [])
                | (Inr sent, dm2) \<Rightarrow>
                    if \<not> sent then send_guild_notification B gid cid ev ''1h'' dm2
                    else (Inr (), dm2, []))
             else (Inr (), dm1, []))
      else (Inr (), dm, []))"

text \<open>The 24h branch, falling through to the 1h branch when its condition is false.\<close>

definition check_primary ::
  "bot \<Rightarrow> int \<Rightarrow> string \<Rightarrow> event \<Rightarrow> rat \<Rightarrow> 'st data_manager \<Rightarrow> ('st, unit) outcome" where
  "check_primary B gid cid ev h dm =
     (if 23 \<le> h \<and> h \<le> 25 then
        (case get_guild_setting gid ''notification_24h'' dm of
           (v, dm1) \<Rightarrow>
             if truthy v then
               (case has_notification_been_sent gid cid ''24h'' dm1 of
                  (Inl e, dm2) \<Rightarrow> (Inl e, dm2, [])
                | (Inr sent, dm2) \<Rightarrow>
                    if \<not> sent then send_guild_notification B gid cid ev ''24h'' dm2
                    else (Inr (), dm2, []))
             else check_1h B gid cid ev h dm1)
      else check_1h B gid cid ev h dm)"

text \<open>The branch taken when \<^verbatim>\<open>should_send_notification\<close> is false; it ends in \<^verbatim>\<open>continue\<close>.\<close>

definition check_channel_reminder ::
  "'st participation_api \<Rightarrow> bot \<Rightarrow> int \<Rightarrow> string \<Rightarrow> event \<Rightarrow> rat \<Rightarrow> 'st data_manager
     \<Rightarrow> ('st, unit) outcome" where
  "check_channel_reminder P B gid cid ev h dm =
     (if is_ctf_joined P (guild_ctf_status dm) gid cid \<and> 0 < h \<and> h \<le> 3 / 2 then
        (case has_notification_been_sent gid cid ''channel_1h'' dm of
           (Inl e, dm1) \<Rightarrow> (Inl e, dm1, [])
         | (Inr sent, dm1) \<Rightarrow>
             if \<not> sent then
               (case send_ctf_channel_reminder B gid cid ev dm1 of
                  (Inl e, dm2, fx) \<Rightarrow> (Inl e, dm2, fx)
                | (Inr delivered, dm2, fx) \<Rightarrow>
                    if delivered then
                      (case mark_notification_sent gid cid ''channel_1h'' dm2 of
                         (Inl e, dm3) \<Rightarrow> (Inl e, dm3, fx)
                       | (Inr u, dm3) \<Rightarrow> (Inr (), dm3, fx @ [Mark gid cid ''channel_1h'']))
                    else (Inr (), dm2, fx))
             else (Inr (), dm1, []))
      else (Inr (), dm, []))"

text \<open>
  The body of the inner loop for one cache entry. \<^verbatim>\<open>if not start_ts: continue\<close> skips a
  missing or unparseable start and also the timestamp 0.
\<close>

definition check_event ::
  "'st participation_api \<Rightarrow> bot \<Rightarrow> int \<Rightarrow> int \<Rightarrow> string \<times> event \<Rightarrow> 'st data_manager
     \<Rightarrow> ('st, unit) outcome" where
  "check_event P B now gid ce dm =
     (case ce of
        (cid, ev) \<Rightarrow>
          (case parse_ctf_time_to_timestamp (ev_start ev) of
             None \<Rightarrow> (Inr (), dm, [])
           | Some start_ts \<Rightarrow>
               if start_ts = 0 then (Inr (), dm, [])
               else if \<not> fromtimestamp_ok start_ts then (Inl ValueError, dm, [])
               else
                 let h = hours_until start_ts now
                 in if \<not> should_send_notification P (guild_ctf_status dm) gid cid
                    then check_channel_reminder P B gid cid ev h dm
                    else check_primary B gid cid ev h dm))"

text \<open>The inner loop: an exception ends it, keeping what was done so far.\<close>

fun check_events ::
  "'st participation_api \<Rightarrow> bot \<Rightarrow> int \<Rightarrow> int \<Rightarrow> (string \<times> event) list \<Rightarrow> 'st data_manager
     \<Rightarrow> ('st, unit) outcome" where
  "check_events P B now gid [] dm = (Inr (), dm, [])"
| "check_events P B now gid (ce # ces) dm =
     (case check_event P B now gid ce dm of
        (Inl e, dm1, fx) \<Rightarrow> (Inl e, dm1, fx)
      | (Inr u, dm1, fx) \<Rightarrow>
          (case check_events P B now gid ces dm1 of
             (r, dm2, fx2) \<Rightarrow> (r, dm2, fx @ fx2)))"

text \<open>The outer loop over the tenants; a tenant the client does not know is skipped.\<close>

fun check_guilds ::
  "'st participation_api \<Rightarrow> bot \<Rightarrow> int \<Rightarrow> int list \<Rightarrow> 'st data_manager \<Rightarrow> ('st, unit) outcome" where
  "check_guilds P B now [] dm = (Inr (), dm, [])"
| "check_guilds P B now (gid # gids) dm =
     (if \<not> get_guild B gid then check_guilds P B now gids dm
      else
        (case check_events P B now gid (ctf_cache dm) dm of
           (Inl e, dm1, fx) \<Rightarrow> (Inl e, dm1, fx)
         | (Inr u, dm1, fx) \<Rightarrow>
             (case check_guilds P B now gids dm1 of
                (r, dm2, fx2) \<Rightarrow> (r, dm2, fx @ fx2))))"

definition check_notification_triggers ::
  "'st participation_api \<Rightarrow> bot \<Rightarrow> int \<Rightarrow> 'st data_manager \<Rightarrow> ('st, unit) outcome" where
  "check_notification_triggers P B now dm = check_guilds P B now (get_setup_guilds dm) dm"


subsection \<open>The reset command\<close>

text \<open>
  \<^verbatim>\<open>slash_reset_notifications\<close> assigns a fresh record of four empty lists under the key
  \<^verbatim>\<open>str(gid)\<close>.
\<close>

definition reset_record :: notification_record where
  "reset_record =
     [(''24h'', PyList []), (''1h'', PyList []), (''channel_1h'', PyList []),
      (''archived'', PyList [])]"

definition slash_reset_notifications :: "int \<Rightarrow> 'st data_manager \<Rightarrow> 'st data_manager" where
  "slash_reset_notifications gid dm =
     dm\<lparr>sent_notifications :=
          AList.update (StrKey (py_str gid)) reset_record (sent_notifications dm)\<rparr>"

subsection \<open>Persistence\<close>

text \<open>
  A backing file is missing, unreadable as JSON, or holds a document. \<^verbatim>\<open>json.dump\<close> followed
  by \<^verbatim>\<open>json.load\<close> is taken to return the document it was given: the documents here are
  objects with string keys over strings, integers, booleans, lists and such objects. What
  the source itself does to the data (string and integer keys, sets and lists, the
  dictionary comprehensions) is modelled in full. Writing is taken to succeed.
\<close>

datatype 'a backing_file = Missing | Corrupt | Content 'a

record 'st files =
  guild_configs_json :: "(string \<times> guild_config) list backing_file"
  sent_notifications_json :: "(string \<times> (string \<times> string list) list) list backing_file"
  guild_ctf_status_json :: "(string \<times> 'st) list backing_file"
  ctf_cache_json :: "(string \<times> event) list backing_file"

text \<open>
  A dictionary comprehension (or display) over pairs in order: a repeated key keeps its
  first position and its last value.
\<close>

definition dict_of :: "('k \<times> 'v) list \<Rightarrow> ('k \<times> 'v) list" where
  "dict_of kvs = foldl (\<lambda>d (k, v). AList.update k v d) [] kvs"

text \<open>\<^verbatim>\<open>str(gid)\<close> of a key: a string is its own \<^verbatim>\<open>str\<close>.\<close>

fun key_str :: "pykey \<Rightarrow> string" where
  "key_str (IntKey i) = py_str i"
| "key_str (StrKey s) = s"

text \<open>
  \<^verbatim>\<open>list(v)\<close>. The order in which Python lists a set is unspecified; the model lists it
  sorted.
\<close>

fun coll_list :: "id_coll \<Rightarrow> string list" where
  "coll_list (PySet S) = sorted_list_of_fset S"
| "coll_list (PyList xs) = xs"

text \<open>\<^verbatim>\<open>int(gid)\<close> on every key of a loaded document; \<open>None\<close> when one is not an integer.\<close>

definition int_keys :: "(string \<times> 'v) list \<Rightarrow> (int \<times> 'v) list option" where
  "int_keys loaded = those (map (\<lambda>(k, v). map_option (\<lambda>i. (i, v)) (py_int k)) loaded)"



definition save_sent_notifications :: "'st data_manager \<Rightarrow> 'st files \<Rightarrow> 'st files" where
  "save_sent_notifications dm fs =
     fs\<lparr>sent_notifications_json :=
          Content (dict_of (map (\<lambda>(gid, data).
                      (key_str gid, dict_of (map (\<lambda>(k, v). (k, coll_list v)) data)))
                    (sent_notifications dm)))\<rparr>"

definition load_sent_notifications ::
  "'st files \<Rightarrow> 'st data_manager \<Rightarrow> (py_error + unit) \<times> 'st data_manager" where
  "load_sent_notifications fs dm =
     (case sent_notifications_json fs of
        Missing \<Rightarrow> (Inr (), dm)
      | Corrupt \<Rightarrow> (Inl ValueError, dm)
      | Content loaded \<Rightarrow>
          (case int_keys loaded of
             None \<Rightarrow> (Inl ValueError, dm)
           | Some kvs \<Rightarrow>
               (Inr (),
                dm\<lparr>sent_notifications :=
                     dict_of (map (\<lambda>(gid, data).
                        (IntKey gid, dict_of (map (\<lambda>(k, v). (k, PySet (fset_of_list v))) data)))
                      kvs)\<rparr>)))"



definition save_ctf_cache :: "'st data_manager \<Rightarrow> 'st files \<Rightarrow> 'st files" where
  "save_ctf_cache dm fs = fs\<lparr>ctf_cache_json := Content (ctf_cache dm)\<rparr>"




subsection \<open>The feed refresh \<^verbatim>\<open>fetch_and_cache_ctfs\<close>\<close>

text \<open>
  What \<^verbatim>\<open>requests.get\<close> gives: an exception, or a response with a status code and a body.
  The body is not JSON (\<^verbatim>\<open>response.json()\<close> raises), JSON that cannot be iterated, or the
  items that iterating it yields, each a JSON object or something else (on which
  \<^verbatim>\<open>e.get\<close> raises).
\<close>

datatype feed_item = FeedObject event | FeedOther

datatype feed_body = NotJson | NotIterable | JsonItems "feed_item list"

datatype response = RequestFailed | Response int feed_body

fun item_event :: "feed_item \<Rightarrow> event option" where
  "item_event (FeedObject e) = Some e"
| "item_event FeedOther = None"

text \<open>
  The \<^verbatim>\<open>try\<close> block: \<open>Inl\<close> for an exception raised in it, \<open>Inr True\<close> for
  \<^verbatim>\<open>return True\<close>, \<open>Inr False\<close> when the status is not 200 and control leaves the block.
  \<^verbatim>\<open>new_cache\<close> is complete before it is assigned.
\<close>

definition fetch_attempt ::
  "response \<Rightarrow> 'st data_manager \<Rightarrow> 'st files \<Rightarrow> (py_error + bool) \<times> 'st data_manager \<times> 'st files" where
  "fetch_attempt resp dm fs =
     (case resp of
        RequestFailed \<Rightarrow> (Inl RequestException, dm, fs)
      | Response status_code body \<Rightarrow>
          if status_code = 200 then
            (case body of
               NotJson \<Rightarrow> (Inl ValueError, dm, fs)
             | NotIterable \<Rightarrow> (Inl TypeError, dm, fs)
             | JsonItems items \<Rightarrow>
                 (case those (map item_event items) of
                    None \<Rightarrow> (Inl AttributeError, dm, fs)
                  | Some events \<Rightarrow>
                      let new_cache = dict_of (map (\<lambda>e. (get_ctf_id e, e)) events);
                          dm' = dm\<lparr>ctf_cache := new_cache\<rparr>
                      in (Inr True, dm', save_ctf_cache dm' fs)))
          else (Inr False, dm, fs))"

text \<open>\<^verbatim>\<open>except Exception\<close> logs and falls to \<^verbatim>\<open>return False\<close>.\<close>

definition fetch_and_cache_ctfs ::
  "response \<Rightarrow> 'st data_manager \<Rightarrow> 'st files \<Rightarrow> (py_error + bool) \<times> 'st data_manager \<times> 'st files" where
  "fetch_and_cache_ctfs resp dm fs =
     (case fetch_attempt resp dm fs of
        (Inl e, dm', fs') \<Rightarrow> (Inr False, dm', fs')
      | (Inr ok, dm', fs') \<Rightarrow> (Inr ok, dm', fs'))"


fun is_py_set :: "id_coll \<Rightarrow> bool" where
  "is_py_set (PySet S) = True"
| "is_py_set (PyList xs) = False"



subsection \<open>The pass as a decision on what it reads\<close>

text \<open>
  The definitions of this part restate no source function: they name what the functions
  above read and write, so that a pass can be described by its effects. Each is tied to the
  source functions by a lemma of the second part.

  The record that \<^verbatim>\<open>get_guild_notifications\<close> returns for a tenant: the stored one under the
  integer key, or the default it would create.
\<close>

definition rec_of :: "'st data_manager \<Rightarrow> int \<Rightarrow> notification_record" where
  "rec_of dm g =
     (case map_of (sent_notifications dm) (IntKey g) of None \<Rightarrow> empty_notifications | Some r \<Rightarrow> r)"

text \<open>
  Whether the tenant has a record under its integer key already.
\<close>

definition has_record :: "'st data_manager \<Rightarrow> int \<Rightarrow> bool" where
  "has_record dm g = (map_of (sent_notifications dm) (IntKey g) \<noteq> None)"

text \<open>
  What \<^verbatim>\<open>has_notification_been_sent\<close> and \<^verbatim>\<open>mark_notification_sent\<close> see of one pair (tenant,
  event key): per kind, whether the kind is a key of the record and, if so, whether its
  collection is a set (has \<^verbatim>\<open>.add\<close>) and whether it holds the event key.
\<close>

type_synonym kind_views = "string \<Rightarrow> (bool \<times> bool) option"

definition kind_view :: "'st data_manager \<Rightarrow> int \<Rightarrow> string \<Rightarrow> kind_views" where
  "kind_view dm g c k = map_option (\<lambda>v. (is_py_set v, coll_member c v)) (map_of (rec_of dm g) k)"

text \<open>
  The store after a read through \<^verbatim>\<open>get_guild_notifications\<close>, which may have created the record.
\<close>

definition touch :: "int \<Rightarrow> 'st data_manager \<Rightarrow> 'st data_manager" where
  "touch g dm = snd (get_guild_notifications g dm)"

text \<open>
  The store after \<^verbatim>\<open>mark_notification_sent\<close>.
\<close>

definition add_mark :: "int \<Rightarrow> string \<Rightarrow> string \<Rightarrow> 'st data_manager \<Rightarrow> 'st data_manager" where
  "add_mark g c k dm = snd (mark_notification_sent g c k dm)"

text \<open>
  \<^verbatim>\<open>get_guild_setting\<close> on a configuration: the tenant's value, else the default.
\<close>

definition setting_of :: "guild_config \<Rightarrow> string \<Rightarrow> setting option" where
  "setting_of cfg name =
     (case map_of (settings cfg) name of Some x \<Rightarrow> Some x | None \<Rightarrow> map_of DEFAULT_CONFIG name)"

text \<open>
  What one step of the pass does, seen from outside: how it ends and which effects it had.
\<close>

type_synonym decision = "(py_error + unit) \<times> effect list"

text \<open>
  The body of \<^verbatim>\<open>send_guild_notification\<close> and of the reminder with its mark, once a channel
  id is known: resolve the channel, build the message (which reads the title), send, mark.
\<close>

definition d_deliver :: "bot \<Rightarrow> int \<Rightarrow> int \<Rightarrow> string \<Rightarrow> event \<Rightarrow> string \<Rightarrow> bool \<Rightarrow> decision" where
  "d_deliver B ch g c ev k is_set =
     (if ch = 0 \<or> \<not> get_channel B ch then (Inr (), [])
      else if ev_title ev = None then (Inl KeyError, [])
      else if \<not> channel_send B ch c k then (Inl DeliveryError, [Send ch g c k])
      else if is_set then (Inr (), [Send ch g c k, Mark g c k])
      else (Inl AttributeError, [Send ch g c k]))"

text \<open>
  The guard \<^verbatim>\<open>if not has_notification_been_sent(...)\<close> followed by the delivery to the target
  channel, if the tenant has one.
\<close>

definition d_notify :: "bot \<Rightarrow> int option \<Rightarrow> int \<Rightarrow> string \<Rightarrow> event \<Rightarrow> string \<Rightarrow> kind_views \<Rightarrow> decision" where
  "d_notify B target g c ev k v =
     (case v k of
        None \<Rightarrow> (Inl KeyError, [])
      | Some (is_set, sent) \<Rightarrow>
          if sent then (Inr (), [])
          else (case target of
                  None \<Rightarrow> (Inr (), [])
                | Some ch \<Rightarrow> d_deliver B ch g c ev k is_set))"

text \<open>
  \<^verbatim>\<open>get_guild_channel_id\<close>: the primary channel of a tenant that completed setup.
\<close>

definition primary_channel :: "guild_config \<Rightarrow> int option" where
  "primary_channel cfg = (if setup_complete cfg then channel_id cfg else None)"

text \<open>
  The conditions of the two primary branches and of the reminder branch.
\<close>

definition on_1h :: "guild_config \<Rightarrow> rat \<Rightarrow> bool" where
  "on_1h cfg h = (0 < h \<and> h \<le> 3 / 2 \<and> truthy (setting_of cfg ''notification_1h''))"

definition on_24h :: "guild_config \<Rightarrow> rat \<Rightarrow> bool" where
  "on_24h cfg h = (23 \<le> h \<and> h \<le> 25 \<and> truthy (setting_of cfg ''notification_24h''))"

text \<open>
  The \<^verbatim>\<open>elif\<close> branch, the \<^verbatim>\<open>if\<close> branch falling through to it, and the reminder branch.
\<close>

definition d_1h :: "bot \<Rightarrow> guild_config \<Rightarrow> int \<Rightarrow> string \<Rightarrow> event \<Rightarrow> rat \<Rightarrow> kind_views \<Rightarrow> decision" where
  "d_1h B cfg g c ev h v =
     (if on_1h cfg h then d_notify B (primary_channel cfg) g c ev ''1h'' v else (Inr (), []))"

definition d_primary :: "bot \<Rightarrow> guild_config \<Rightarrow> int \<Rightarrow> string \<Rightarrow> event \<Rightarrow> rat \<Rightarrow> kind_views \<Rightarrow> decision" where
  "d_primary B cfg g c ev h v =
     (if on_24h cfg h then d_notify B (primary_channel cfg) g c ev ''24h'' v
      else d_1h B cfg g c ev h v)"

definition on_reminder :: "'st participation_api \<Rightarrow> (int \<times> 'st) list \<Rightarrow> int \<Rightarrow> string \<Rightarrow> rat \<Rightarrow> bool" where
  "on_reminder P st g c h = (is_ctf_joined P st g c \<and> 0 < h \<and> h \<le> 3 / 2)"

definition d_reminder ::
  "'st participation_api \<Rightarrow> bot \<Rightarrow> guild_config \<Rightarrow> (int \<times> 'st) list \<Rightarrow> int \<Rightarrow> string \<Rightarrow> event
     \<Rightarrow> rat \<Rightarrow> kind_views \<Rightarrow> decision" where
  "d_reminder P B cfg st g c ev h v =
     (if on_reminder P st g c h
      then d_notify B (map_of (ctf_channels cfg) c) g c ev ''channel_1h'' v
      else (Inr (), []))"

text \<open>
  The start time the loop body goes on with: \<^verbatim>\<open>if not start_ts: continue\<close> drops \<open>None\<close> and 0.
\<close>

definition start_of :: "event \<Rightarrow> int option" where
  "start_of ev =
     (case parse_ctf_time_to_timestamp (ev_start ev) of
        None \<Rightarrow> None
      | Some ts \<Rightarrow> if ts = 0 then None else Some ts)"

text \<open>
  The loop body for one tenant and one cache entry, as a function of what it reads: the
  configuration, the participation store and the view of the pair.
\<close>

definition d_event ::
  "'st participation_api \<Rightarrow> bot \<Rightarrow> int \<Rightarrow> guild_config \<Rightarrow> (int \<times> 'st) list \<Rightarrow> int
     \<Rightarrow> string \<times> event \<Rightarrow> kind_views \<Rightarrow> decision" where
  "d_event P B now cfg st g ce v =
     (case start_of (snd ce) of
        None \<Rightarrow> (Inr (), [])
      | Some ts \<Rightarrow>
          if \<not> fromtimestamp_ok ts then (Inl ValueError, [])
          else if \<not> should_send_notification P st g (fst ce)
            then d_reminder P B cfg st g (fst ce) (snd ce) (hours_until ts now) v
            else d_primary B cfg g (fst ce) (snd ce) (hours_until ts now) v)"

text \<open>
  Whether the loop body reads the sent-set, that is calls \<^verbatim>\<open>has_notification_been_sent\<close>, which
  creates the tenant's record when it is missing.
\<close>

definition t_event ::
  "'st participation_api \<Rightarrow> int \<Rightarrow> guild_config \<Rightarrow> (int \<times> 'st) list \<Rightarrow> int \<Rightarrow> string \<times> event \<Rightarrow> bool" where
  "t_event P now cfg st g ce =
     (case start_of (snd ce) of
        None \<Rightarrow> False
      | Some ts \<Rightarrow>
          fromtimestamp_ok ts \<and>
          (if \<not> should_send_notification P st g (fst ce)
           then on_reminder P st g (fst ce) (hours_until ts now)
           else on_24h cfg (hours_until ts now) \<or> on_1h cfg (hours_until ts now)))"

text \<open>
  What a step may change: nothing but the sent-set, where the marked tuples become members
  and the tenant's record may have been created.
\<close>

definition step_frame ::
  "int \<Rightarrow> bool \<Rightarrow> 'st data_manager \<Rightarrow> 'st data_manager \<Rightarrow> effect list \<Rightarrow> bool" where
  "step_frame g t dm dm' fx \<longleftrightarrow>
     guild_configs dm' = guild_configs dm \<and> guild_ctf_status dm' = guild_ctf_status dm
     \<and> ctf_cache dm' = ctf_cache dm
     \<and> (\<forall>g' c' k'. kind_view dm' g' c' k' =
           (if Mark g' c' k' \<in> set fx then Some (True, True) else kind_view dm g' c' k'))
     \<and> (\<forall>g'. has_record dm' g' \<longleftrightarrow> has_record dm g' \<or> (g' = g \<and> t))
     \<and> (fx = [] \<longrightarrow> dm' = (if t then touch g dm else dm))"

text \<open>
  The order of effects in a trace. \<open>send_then_mark\<close>: the trace is a sequence of pairs, a call
  of \<^verbatim>\<open>channel.send\<close> that delivered, directly followed by the recording of the same tuple,
  and may end in one call of \<^verbatim>\<open>channel.send\<close> with nothing recorded after it. \<open>paired\<close>: the
  same without the unrecorded call at the end.
\<close>

fun send_then_mark :: "bot \<Rightarrow> effect list \<Rightarrow> bool" where
  "send_then_mark B [] = True"
| "send_then_mark B [Send ch g c k] = True"
| "send_then_mark B (Send ch g c k # Mark g' c' k' # fx) =
     (g' = g \<and> c' = c \<and> k' = k \<and> channel_send B ch c k \<and> send_then_mark B fx)"
| "send_then_mark B (e # fx) = False"

fun paired :: "bot \<Rightarrow> effect list \<Rightarrow> bool" where
  "paired B [] = True"
| "paired B (Send ch g c k # Mark g' c' k' # fx) =
     (g' = g \<and> c' = c \<and> k' = k \<and> channel_send B ch c k \<and> paired B fx)"
| "paired B (e # fx) = False"

text \<open>
  The view of a pair after the marks of a trace.
\<close>

definition marked_view :: "int \<Rightarrow> string \<Rightarrow> effect list \<Rightarrow> kind_views \<Rightarrow> kind_views" where
  "marked_view g c fx v = (\<lambda>k. if Mark g c k \<in> set fx then Some (True, True) else v k)"

text \<open>
  \<^verbatim>\<open>get_guild_config\<close>: the stored configuration of a tenant, else the default one.
\<close>

definition config_of :: "'st data_manager \<Rightarrow> int \<Rightarrow> guild_config" where
  "config_of dm g =
     (case map_of (guild_configs dm) g of Some c \<Rightarrow> c | None \<Rightarrow> default_guild_config)"

text \<open>
  The decision and the sent-set read of the loop body, on a store.
\<close>

definition dec ::
  "'st participation_api \<Rightarrow> bot \<Rightarrow> int \<Rightarrow> 'st data_manager \<Rightarrow> int \<Rightarrow> string \<times> event \<Rightarrow> decision" where
  "dec P B now dm g ce =
     d_event P B now (config_of dm g) (guild_ctf_status dm) g ce (kind_view dm g (fst ce))"

definition touches ::
  "'st participation_api \<Rightarrow> int \<Rightarrow> 'st data_manager \<Rightarrow> int \<Rightarrow> string \<times> event \<Rightarrow> bool" where
  "touches P now dm g ce = t_event P now (config_of dm g) (guild_ctf_status dm) g ce"

text \<open>
  \<open>step_frame\<close> over several steps: records are created, never removed.
\<close>

definition pass_frame :: "'st data_manager \<Rightarrow> 'st data_manager \<Rightarrow> effect list \<Rightarrow> bool" where
  "pass_frame dm dm' fx \<longleftrightarrow>
     guild_configs dm' = guild_configs dm \<and> guild_ctf_status dm' = guild_ctf_status dm
     \<and> ctf_cache dm' = ctf_cache dm
     \<and> (\<forall>g' c' k'. kind_view dm' g' c' k' =
           (if Mark g' c' k' \<in> set fx then Some (True, True) else kind_view dm g' c' k'))
     \<and> (\<forall>g'. has_record dm g' \<longrightarrow> has_record dm' g')"

text \<open>
  The effects of a whole pass on a store, and what it means that every step of the pass ended
  normally.
\<close>

definition pass_effects ::
  "'st participation_api \<Rightarrow> bot \<Rightarrow> int \<Rightarrow> 'st data_manager \<Rightarrow> int list \<Rightarrow> effect set" where
  "pass_effects P B now dm gids =
     (\<Union>g\<in>{g \<in> set gids. get_guild B g}. \<Union>ce\<in>set (ctf_cache dm). set (snd (dec P B now dm g ce)))"

definition pass_clean ::
  "'st participation_api \<Rightarrow> bot \<Rightarrow> int \<Rightarrow> 'st data_manager \<Rightarrow> 'st data_manager \<Rightarrow> int list \<Rightarrow> bool" where
  "pass_clean P B now dm dm' gids \<longleftrightarrow>
     (\<forall>g\<in>set gids. get_guild B g \<longrightarrow>
        (\<forall>ce\<in>set (ctf_cache dm). fst (dec P B now dm g ce) = Inr ()
            \<and> (touches P now dm g ce \<longrightarrow> has_record dm' g)))"


subsection \<open>A concrete deployment, for running the definitions\<close>

text \<open>
  One tenant (guild 7) that completed setup with primary channel 100 and a channel 200 bound
  to the event \<open>A_1\<close>, which starts on 2024-01-02 at 00:00 UTC (timestamp 1704153600); a
  client that resolves every guild and channel and delivers every message.
\<close>

definition ex_event :: event where
  "ex_event = \<lparr> ev_title = Some ''A'', ev_id = Some 1,
                 ev_start = Some ''2024-01-02T00:00:00+00:00'', ev_finish = None,
                 ev_description = None, ev_url = None \<rparr>"

definition ex_config :: guild_config where
  "ex_config = \<lparr> setup_complete = True, channel_id = Some 100, settings = DEFAULT_CONFIG,
                  ctf_channels = [(''A_1'', 200)], ctf_credentials = DEFAULT_CTF_CREDENTIALS \<rparr>"

definition ex_dm :: "(string \<times> participation) list data_manager" where
  "ex_dm = \<lparr> ctf_cache = [(''A_1'', ex_event)], guild_configs = [(7, ex_config)],
              sent_notifications = [], guild_ctf_status = [] \<rparr>"

definition ex_bot :: bot where
  "ex_bot = \<lparr> get_guild = (\<lambda>g. True), get_channel = (\<lambda>c. True),
               channel_send = (\<lambda>ch c k. True) \<rparr>"

definition ex_disk :: "(string \<times> participation) list files" where
  "ex_disk = \<lparr> guild_configs_json = Missing, sent_notifications_json = Missing,
                guild_ctf_status_json = Missing, ctf_cache_json = Missing \<rparr>"

text \<open>The store after the 24h notification for \<open>A_1\<close> went out to guild 7.\<close>

definition ex_dm_sent :: "(string \<times> participation) list data_manager" where
  "ex_dm_sent = ex_dm\<lparr>sent_notifications :=
     [(IntKey 7, [(''24h'', PySet {|''A_1''|}), (''1h'', PySet {||}),
                  (''channel_1h'', PySet {||}), (''archived'', PySet {||})])]\<rparr>"

text \<open>A store whose cache and sent-set still name an event \<open>Old_9\<close>.\<close>

definition ex_dm_old :: "(string \<times> participation) list data_manager" where
  "ex_dm_old = ex_dm\<lparr>
     ctf_cache := [(''Old_9'', ex_event\<lparr>ev_title := Some ''Old'', ev_id := Some 9\<rparr>)],
     sent_notifications :=
       [(IntKey 7, [(''24h'', PySet {|''Old_9''|}), (''1h'', PySet {||}),
                    (''channel_1h'', PySet {||}), (''archived'', PySet {||})])]\<rparr>"

text \<open>
  Variants of the deployment: guild 7 joined or skipped \<open>A_1\<close>; a client whose
  \<^verbatim>\<open>channel.send\<close> always raises; a client that does not know the guild; a client that
  resolves no channel.
\<close>

definition ex_dm_joined :: "(string \<times> participation) list data_manager" where
  "ex_dm_joined = ex_dm\<lparr>guild_ctf_status := [(7, [(''A_1'', Joined)])]\<rparr>"

definition ex_dm_skipped :: "(string \<times> participation) list data_manager" where
  "ex_dm_skipped = ex_dm\<lparr>guild_ctf_status := [(7, [(''A_1'', Skipped)])]\<rparr>"


definition ex_bot_no_guild :: bot where
  "ex_bot_no_guild = ex_bot\<lparr>get_guild := (\<lambda>g. False)\<rparr>"

definition ex_bot_no_channel :: bot where
  "ex_bot_no_channel = ex_bot\<lparr>get_channel := (\<lambda>ch. False)\<rparr>"

text \<open>
  The store after the 1h notification for \<open>A_1\<close> went out to guild 7, and the store of the
  tenant that joined \<open>A_1\<close> after the reminder went to the bound channel 200.
\<close>

definition ex_dm_sent_1h :: "(string \<times> participation) list data_manager" where
  "ex_dm_sent_1h = ex_dm\<lparr>sent_notifications :=
     [(IntKey 7, [(''24h'', PySet {||}), (''1h'', PySet {|''A_1''|}),
                  (''channel_1h'', PySet {||}), (''archived'', PySet {||})])]\<rparr>"

definition ex_dm_reminded :: "(string \<times> participation) list data_manager" where
  "ex_dm_reminded = ex_dm_joined\<lparr>sent_notifications :=
     [(IntKey 7, [(''24h'', PySet {||}), (''1h'', PySet {||}),
                  (''channel_1h'', PySet {|''A_1''|}), (''archived'', PySet {||})])]\<rparr>"

section \<open>Properties\<close>

subsection \<open>The start-time parser\<close>

lemma re_core_Nil: "re_core [] = []"
  by (simp add: re_core_def re_Y_def m_seq_def m_dig_def m_cls_def)

lemma strptime_Nil: "strptime [] fmt = None"
  by (cases fmt) (simp_all add: strptime_def re_core_Nil)

lemma format_regex_no_z:
  "fmt = Fmt_S \<or> fmt = Fmt_S_f \<Longrightarrow> (g, f, z, r) \<in> set (format_regex fmt s) \<Longrightarrow> z = []"
  by auto

lemma strptime_naive:
  assumes "fmt = Fmt_S \<or> fmt = Fmt_S_f" and "strptime s fmt = Some dt"
  shows "tzinfo dt = None"
proof (cases "format_regex fmt s")
  case Nil
  then show ?thesis using assms(2) by (simp add: strptime_def)
next
  case (Cons x xs)
  obtain Y m d H M S f z r where x: "x = ((Y, m, d, H, M, S), f, z, r)"
    by (metis prod_cases3 prod_cases4)
  have "x \<in> set (format_regex fmt s)" using Cons by simp
  then have "z = []" using format_regex_no_z [OF assms(1)] x by blast
  then show ?thesis
    using assms(2) Cons x by (auto simp: strptime_def Let_def split: if_splits)
qed

lemma parse_first_success:
  "s \<noteq> [] \<Longrightarrow> try_formats s time_formats = Some ts \<Longrightarrow> parse_ctf_time_to_timestamp (Some s) = Some ts"
  by (simp add: parse_ctf_time_to_timestamp_def)

lemma parse_fallback:
  "s \<noteq> [] \<Longrightarrow> try_formats s time_formats = None \<Longrightarrow>
   parse_ctf_time_to_timestamp (Some s) = map_option (\<lambda>dt. int_timestamp dt 0) (strptime (take 19 s) Fmt_S)"
  by (simp add: parse_ctf_time_to_timestamp_def split: option.splits)

text \<open>
  C10. The parser returns \<open>None\<close> for a missing or empty string. Whenever the first 19
  characters parse as \<^verbatim>\<open>%Y-%m-%dT%H:%M:%S\<close> it returns a timestamp, whatever follows them;
  when none of the four formats accepts the whole string that timestamp is the one of the
  prefix read as UTC. A string that a format without \<^verbatim>\<open>%z\<close> accepts yields a naive
  \<^verbatim>\<open>datetime\<close>, and the result is the epoch second count of its fields at offset 0 (UTC).
\<close>

theorem parse_ctf_time_prefix_and_utc:
  "parse_ctf_time_to_timestamp None = None
   \<and> parse_ctf_time_to_timestamp (Some []) = None
   \<and> (\<forall>s dt. strptime (take 19 s) Fmt_S = Some dt \<longrightarrow>
         (\<exists>ts. parse_ctf_time_to_timestamp (Some s) = Some ts))
   \<and> (\<forall>s dt. try_formats s time_formats = None \<longrightarrow> strptime (take 19 s) Fmt_S = Some dt \<longrightarrow>
         parse_ctf_time_to_timestamp (Some s) = Some (int_timestamp dt 0))
   \<and> (\<forall>s dt. strptime s Fmt_S_z = None \<longrightarrow> strptime s Fmt_S_f_z = None \<longrightarrow>
         strptime s Fmt_S = Some dt \<longrightarrow>
         tzinfo dt = None \<and> parse_ctf_time_to_timestamp (Some s) = Some (int_timestamp dt 0))
   \<and> (\<forall>s dt. strptime s Fmt_S_z = None \<longrightarrow> strptime s Fmt_S_f_z = None \<longrightarrow>
         strptime s Fmt_S = None \<longrightarrow> strptime s Fmt_S_f = Some dt \<longrightarrow>
         tzinfo dt = None \<and> parse_ctf_time_to_timestamp (Some s) = Some (int_timestamp dt 0))"
proof (intro conjI allI impI)
  show "parse_ctf_time_to_timestamp None = None"
    by (simp add: parse_ctf_time_to_timestamp_def)
  show "parse_ctf_time_to_timestamp (Some []) = None"
    by (simp add: parse_ctf_time_to_timestamp_def)
next
  fix s dt assume p: "strptime (take 19 s) Fmt_S = Some dt"
  then have ne: "s \<noteq> []" using strptime_Nil by auto
  show "\<exists>ts. parse_ctf_time_to_timestamp (Some s) = Some ts"
  proof (cases "try_formats s time_formats")
    case None
    then show ?thesis using parse_fallback [OF ne None] p by simp
  next
    case (Some ts)
    then show ?thesis using parse_first_success [OF ne Some] by blast
  qed
next
  fix s dt assume n: "try_formats s time_formats = None" and p: "strptime (take 19 s) Fmt_S = Some dt"
  then have ne: "s \<noteq> []" using strptime_Nil by auto
  show "parse_ctf_time_to_timestamp (Some s) = Some (int_timestamp dt 0)"
    using parse_fallback [OF ne n] p by simp
next
  fix s dt assume a: "strptime s Fmt_S_z = None" "strptime s Fmt_S_f_z = None" "strptime s Fmt_S = Some dt"
  then have ne: "s \<noteq> []" using strptime_Nil by auto
  show "tzinfo dt = None" using a(3) by (rule strptime_naive [rotated]) simp
  then have "try_formats s time_formats = Some (int_timestamp dt 0)"
    using a by (simp add: time_formats_def utc_if_naive_def)
  then show "parse_ctf_time_to_timestamp (Some s) = Some (int_timestamp dt 0)"
    by (rule parse_first_success [OF ne])
next
  fix s dt assume a: "strptime s Fmt_S_z = None" "strptime s Fmt_S_f_z = None" "strptime s Fmt_S = None" "strptime s Fmt_S_f = Some dt"
  then have ne: "s \<noteq> []" using strptime_Nil by auto
  show "tzinfo dt = None" using a(4) by (rule strptime_naive [rotated]) simp
  then have "try_formats s time_formats = Some (int_timestamp dt 0)"
    using a by (simp add: time_formats_def utc_if_naive_def)
  then show "parse_ctf_time_to_timestamp (Some s) = Some (int_timestamp dt 0)"
    by (rule parse_first_success [OF ne])
qed

theorem parse_ctf_time_prefix_and_utc_witness:
  "strptime (take 19 ''2024-01-02T00:00:00 garbage'') Fmt_S
     = Some \<lparr> year = 2024, month = 1, day = 2, hour = 0, minute = 0, second = 0,
              microsecond = 0, tzinfo = None \<rparr>
   \<and> try_formats ''2024-01-02T00:00:00 garbage'' time_formats = None
   \<and> parse_ctf_time_to_timestamp (Some ''2024-01-02T00:00:00 garbage'') = Some 1704153600
   \<and> strptime ''2024-01-02T00:00:00'' Fmt_S_z = None
   \<and> parse_ctf_time_to_timestamp (Some ''2024-01-02T00:00:00'') = Some 1704153600
   \<and> parse_ctf_time_to_timestamp (Some ''2024-01-02T00:00:00+00:00'') = Some 1704153600
   \<and> parse_ctf_time_to_timestamp (Some ''2024-01-02T00:00:00+01:00'') = Some 1704150000"
proof -
  let ?dt = "\<lparr> year = 2024, month = 1, day = 2, hour = 0, minute = 0, second = 0,
              microsecond = 0, tzinfo = None \<rparr>"
  have p: "strptime (take 19 ''2024-01-02T00:00:00 garbage'') Fmt_S = Some ?dt" by code_simp
  have n: "try_formats ''2024-01-02T00:00:00 garbage'' time_formats = None" by code_simp
  have t: "int_timestamp ?dt 0 = 1704153600" by code_simp
  have g: "parse_ctf_time_to_timestamp (Some ''2024-01-02T00:00:00 garbage'') = Some (int_timestamp ?dt 0)"
    using parse_ctf_time_prefix_and_utc n p by blast
  have z: "strptime ''2024-01-02T00:00:00'' Fmt_S_z = None" by code_simp
  have a: "parse_ctf_time_to_timestamp (Some ''2024-01-02T00:00:00'') = Some 1704153600" by code_simp
  have b: "parse_ctf_time_to_timestamp (Some ''2024-01-02T00:00:00+00:00'') = Some 1704153600" by code_simp
  have c: "parse_ctf_time_to_timestamp (Some ''2024-01-02T00:00:00+01:00'') = Some 1704150000" by code_simp
  show ?thesis using p n g t z a b c by simp
qed

subsection \<open>Dictionaries, and the decimal rendering of integers\<close>

lemma foldl_update_keys:
  "fst ` set (foldl (\<lambda>d (k, v). AList.update k v d) acc kvs) = fst ` set acc \<union> fst ` set kvs"
proof (induction kvs arbitrary: acc)
  case Nil
  then show ?case by simp
next
  case (Cons kv kvs)
  obtain k v where kv: "kv = (k, v)" by (cases kv)
  show ?case using kv by (simp add: Cons.IH dom_update)
qed

lemma dict_of_keys: "fst ` set (dict_of kvs) = fst ` set kvs"
  by (simp add: dict_of_def foldl_update_keys)

lemma foldl_update_distinct:
  "distinct (map fst acc) \<Longrightarrow> distinct (map fst (foldl (\<lambda>d (k, v). AList.update k v d) acc kvs))"
  by (induction kvs arbitrary: acc) (auto simp: distinct_update split: prod.splits)

lemma dict_of_distinct: "distinct (map fst (dict_of kvs))"
  by (simp add: dict_of_def foldl_update_distinct)





declare digits_of_int.simps [simp del]





















subsection \<open>Reset\<close>

lemma reset_keeps_int_keys:
  "map_of (sent_notifications (slash_reset_notifications gid dm)) (IntKey g)
     = map_of (sent_notifications dm) (IntKey g)"
  by (simp add: slash_reset_notifications_def update_conv')

lemma reset_has_sent:
  "fst (has_notification_been_sent g c k (slash_reset_notifications gid dm))
     = fst (has_notification_been_sent g c k dm)"
  by (simp add: has_notification_been_sent_def get_guild_notifications_def reset_keeps_int_keys
      split: option.splits)

text \<open>
  C1 at a concrete input. Guild 7 has the 24h notification for \<open>A_1\<close> recorded. After the
  reset command \<^verbatim>\<open>has_notification_been_sent\<close> still answers \<open>True\<close>: the fresh record went
  under the string key \<open>''7''\<close>, beside the one the accessors read under the integer 7, and
  a pass right after the reset sends nothing, where the same pass on a store without the
  record sends the 24h notification. Only saving and loading again merges the two keys. The
  participation status is untouched, as the claim says.
\<close>

theorem reset_leaves_sent_tuples:
  "fst (has_notification_been_sent 7 ''A_1'' ''24h'' ex_dm_sent) = Inr True
   \<and> fst (has_notification_been_sent 7 ''A_1'' ''24h'' (slash_reset_notifications 7 ex_dm_sent))
       = Inr True
   \<and> sent_notifications (slash_reset_notifications 7 ex_dm_sent)
       = sent_notifications ex_dm_sent @ [(StrKey ''7'', reset_record)]
   \<and> snd (snd (check_notification_triggers spec_participation ex_bot 1704067200000000 ex_dm))
       = [Send 100 7 ''A_1'' ''24h'', Mark 7 ''A_1'' ''24h'']
   \<and> snd (snd (check_notification_triggers spec_participation ex_bot 1704067200000000
         (slash_reset_notifications 7 ex_dm_sent))) = []
   \<and> load_sent_notifications
         (save_sent_notifications (slash_reset_notifications 7 ex_dm_sent) ex_disk) ex_dm
       = (Inr (), ex_dm\<lparr>sent_notifications := [(IntKey 7, empty_notifications)]\<rparr>)
   \<and> guild_ctf_status (slash_reset_notifications 7 ex_dm_sent) = guild_ctf_status ex_dm_sent"
  by code_simp


subsection \<open>Refresh\<close>

lemma those_objects: "those (map (item_event \<circ> FeedObject) events) = Some events"
  by (induction events) auto

lemma those_objects_conv:
  "those (map item_event items) = Some events \<Longrightarrow> items = map FeedObject events"
proof (induction items arbitrary: events)
  case Nil
  then show ?case by simp
next
  case (Cons i items)
  then show ?case by (cases i) (auto split: option.splits)
qed

lemma fetch_success:
  "fetch_and_cache_ctfs (Response 200 (JsonItems (map FeedObject events))) dm fs =
     (Inr True, dm\<lparr>ctf_cache := dict_of (map (\<lambda>e. (get_ctf_id e, e)) events)\<rparr>,
      fs\<lparr>ctf_cache_json := Content (dict_of (map (\<lambda>e. (get_ctf_id e, e)) events))\<rparr>)"
  by (simp add: fetch_and_cache_ctfs_def fetch_attempt_def those_objects save_ctf_cache_def Let_def)

lemma fetch_cache_cases:
  "ctf_cache (fst (snd (fetch_and_cache_ctfs resp dm fs))) = ctf_cache dm
   \<or> (\<exists>events. resp = Response 200 (JsonItems (map FeedObject events))
         \<and> ctf_cache (fst (snd (fetch_and_cache_ctfs resp dm fs)))
             = dict_of (map (\<lambda>e. (get_ctf_id e, e)) events))"
  by (auto simp: fetch_and_cache_ctfs_def fetch_attempt_def Let_def dest: those_objects_conv
      split: response.splits feed_body.splits option.splits)

text \<open>
  C7. A refresh whose fetch succeeds (status 200, a JSON list of objects) returns \<open>True\<close> and
  leaves as cache exactly the dictionary built from the fetched events by their keys, with
  nothing of the previous cache in it; the file is written from it. Its keys are the fetched
  keys, so a key of the old cache that the fetch does not contain is gone from the cache. The
  other three stores are unchanged. Whatever the response, the cache afterwards is either
  the old one or the complete new one.
\<close>

theorem refresh_replaces_cache:
  "fetch_and_cache_ctfs (Response 200 (JsonItems (map FeedObject events))) dm fs =
     (Inr True, dm\<lparr>ctf_cache := dict_of (map (\<lambda>e. (get_ctf_id e, e)) events)\<rparr>,
      fs\<lparr>ctf_cache_json := Content (dict_of (map (\<lambda>e. (get_ctf_id e, e)) events))\<rparr>)
   \<and> fst ` set (dict_of (map (\<lambda>e. (get_ctf_id e, e)) events)) = get_ctf_id ` set events
   \<and> distinct (map fst (dict_of (map (\<lambda>e. (get_ctf_id e, e)) events)))
   \<and> (\<forall>k. k \<in> fst ` set (ctf_cache dm) \<longrightarrow> k \<notin> get_ctf_id ` set events \<longrightarrow>
         k \<notin> fst ` set (dict_of (map (\<lambda>e. (get_ctf_id e, e)) events))
         \<and> map_of (dict_of (map (\<lambda>e. (get_ctf_id e, e)) events)) k = None)
   \<and> sent_notifications (dm\<lparr>ctf_cache := dict_of (map (\<lambda>e. (get_ctf_id e, e)) events)\<rparr>)
       = sent_notifications dm
   \<and> guild_ctf_status (dm\<lparr>ctf_cache := dict_of (map (\<lambda>e. (get_ctf_id e, e)) events)\<rparr>)
       = guild_ctf_status dm
   \<and> guild_configs (dm\<lparr>ctf_cache := dict_of (map (\<lambda>e. (get_ctf_id e, e)) events)\<rparr>)
       = guild_configs dm
   \<and> (\<forall>resp. ctf_cache (fst (snd (fetch_and_cache_ctfs resp dm fs))) = ctf_cache dm
         \<or> (\<exists>evs. resp = Response 200 (JsonItems (map FeedObject evs))
               \<and> ctf_cache (fst (snd (fetch_and_cache_ctfs resp dm fs)))
                   = dict_of (map (\<lambda>e. (get_ctf_id e, e)) evs)))"
proof (intro conjI allI impI)
  show "fetch_and_cache_ctfs (Response 200 (JsonItems (map FeedObject events))) dm fs =
     (Inr True, dm\<lparr>ctf_cache := dict_of (map (\<lambda>e. (get_ctf_id e, e)) events)\<rparr>,
      fs\<lparr>ctf_cache_json := Content (dict_of (map (\<lambda>e. (get_ctf_id e, e)) events))\<rparr>)"
    by (rule fetch_success)
  show keys: "fst ` set (dict_of (map (\<lambda>e. (get_ctf_id e, e)) events)) = get_ctf_id ` set events"
    by (simp add: dict_of_keys image_image)
  show "distinct (map fst (dict_of (map (\<lambda>e. (get_ctf_id e, e)) events)))"
    by (rule dict_of_distinct)
  show "sent_notifications (dm\<lparr>ctf_cache := dict_of (map (\<lambda>e. (get_ctf_id e, e)) events)\<rparr>)
       = sent_notifications dm" by simp
  show "guild_ctf_status (dm\<lparr>ctf_cache := dict_of (map (\<lambda>e. (get_ctf_id e, e)) events)\<rparr>)
       = guild_ctf_status dm" by simp
  show "guild_configs (dm\<lparr>ctf_cache := dict_of (map (\<lambda>e. (get_ctf_id e, e)) events)\<rparr>)
       = guild_configs dm" by simp
  fix resp
  show "ctf_cache (fst (snd (fetch_and_cache_ctfs resp dm fs))) = ctf_cache dm
         \<or> (\<exists>evs. resp = Response 200 (JsonItems (map FeedObject evs))
               \<and> ctf_cache (fst (snd (fetch_and_cache_ctfs resp dm fs)))
                   = dict_of (map (\<lambda>e. (get_ctf_id e, e)) evs))"
    by (rule fetch_cache_cases)
next
  fix k assume "k \<notin> get_ctf_id ` set events"
  then show a: "k \<notin> fst ` set (dict_of (map (\<lambda>e. (get_ctf_id e, e)) events))"
    by (simp add: dict_of_keys image_image)
  then show "map_of (dict_of (map (\<lambda>e. (get_ctf_id e, e)) events)) k = None"
    by (simp add: map_of_eq_None_iff)
qed

theorem refresh_replaces_cache_witness:
  "''Old_9'' \<in> fst ` set (ctf_cache ex_dm_old)
   \<and> ''Old_9'' \<notin> get_ctf_id ` set [ex_event]
   \<and> ''Old_9'' \<notin> fst ` set (dict_of (map (\<lambda>e. (get_ctf_id e, e)) [ex_event]))
   \<and> map_of (dict_of (map (\<lambda>e. (get_ctf_id e, e)) [ex_event])) ''Old_9'' = None
   \<and> fetch_and_cache_ctfs (Response 200 (JsonItems (map FeedObject [ex_event]))) ex_dm_old ex_disk
       = (Inr True, ex_dm_old\<lparr>ctf_cache := [(''A_1'', ex_event)]\<rparr>,
          ex_disk\<lparr>ctf_cache_json := Content [(''A_1'', ex_event)]\<rparr>)
   \<and> fst (has_notification_been_sent 7 ''Old_9'' ''24h''
          (ex_dm_old\<lparr>ctf_cache := [(''A_1'', ex_event)]\<rparr>)) = Inr True"
proof -
  have a: "''Old_9'' \<in> fst ` set (ctf_cache ex_dm_old)" by code_simp
  have b: "''Old_9'' \<notin> get_ctf_id ` set [ex_event]" by code_simp
  have c: "dict_of (map (\<lambda>e. (get_ctf_id e, e)) [ex_event]) = [(''A_1'', ex_event)]" by code_simp
  have d: "fst (has_notification_been_sent 7 ''Old_9'' ''24h''
          (ex_dm_old\<lparr>ctf_cache := [(''A_1'', ex_event)]\<rparr>)) = Inr True" by code_simp
  note t = refresh_replaces_cache [of "[ex_event]" ex_dm_old ex_disk]
  from t a b have e: "''Old_9'' \<notin> fst ` set (dict_of (map (\<lambda>e. (get_ctf_id e, e)) [ex_event]))
      \<and> map_of (dict_of (map (\<lambda>e. (get_ctf_id e, e)) [ex_event])) ''Old_9'' = None"
    by blast
  from t have f: "fetch_and_cache_ctfs (Response 200 (JsonItems (map FeedObject [ex_event]))) ex_dm_old ex_disk
       = (Inr True, ex_dm_old\<lparr>ctf_cache := dict_of (map (\<lambda>e. (get_ctf_id e, e)) [ex_event])\<rparr>,
          ex_disk\<lparr>ctf_cache_json := Content (dict_of (map (\<lambda>e. (get_ctf_id e, e)) [ex_event]))\<rparr>)"
    by blast
  show ?thesis using a b d e f unfolding c by blast
qed

text \<open>
  C8. When the request raises, the status is not 200 (every non-2xx status among them), or
  the body is not JSON or cannot be iterated, the refresh returns \<open>False\<close> without raising
  and leaves the stores and the files as they were.
\<close>

theorem fetch_failure_keeps_cache:
  "resp = RequestFailed
   \<or> (\<exists>code body. resp = Response code body \<and> (code \<noteq> 200 \<or> body = NotJson \<or> body = NotIterable))
   \<Longrightarrow> fetch_and_cache_ctfs resp dm fs = (Inr False, dm, fs)"
  by (auto simp: fetch_and_cache_ctfs_def fetch_attempt_def)

theorem fetch_failure_keeps_cache_witness:
  "fetch_and_cache_ctfs RequestFailed ex_dm_old ex_disk = (Inr False, ex_dm_old, ex_disk)
   \<and> fetch_and_cache_ctfs (Response 503 (JsonItems [])) ex_dm_old ex_disk
       = (Inr False, ex_dm_old, ex_disk)
   \<and> fetch_and_cache_ctfs (Response 200 NotJson) ex_dm_old ex_disk = (Inr False, ex_dm_old, ex_disk)"
  using fetch_failure_keeps_cache [of RequestFailed ex_dm_old ex_disk]
    fetch_failure_keeps_cache [of "Response 503 (JsonItems [])" ex_dm_old ex_disk]
    fetch_failure_keeps_cache [of "Response 200 NotJson" ex_dm_old ex_disk]
  by simp

subsection \<open>Save and load\<close>









subsection \<open>The sent-set as the pass reads and writes it\<close>

lemma get_guild_notifications_eq: "get_guild_notifications g dm = (rec_of dm g, touch g dm)"
  by (simp add: get_guild_notifications_def rec_of_def touch_def split: option.splits)

lemma touch_id: "has_record dm g \<Longrightarrow> touch g dm = dm"
  by (auto simp: touch_def get_guild_notifications_def has_record_def)

lemma touch_fields [simp]:
  "guild_configs (touch g dm) = guild_configs dm"
  "guild_ctf_status (touch g dm) = guild_ctf_status dm"
  "ctf_cache (touch g dm) = ctf_cache dm"
  by (simp_all add: touch_def get_guild_notifications_def split: option.splits)

lemma map_of_touch:
  "map_of (sent_notifications (touch g dm)) key =
     (if key = IntKey g then Some (rec_of dm g) else map_of (sent_notifications dm) key)"
  by (auto simp: touch_def get_guild_notifications_def rec_of_def update_conv' split: option.splits)

lemma rec_of_touch [simp]: "rec_of (touch g dm) g' = rec_of dm g'"
  by (simp add: rec_of_def [of "touch g dm"] map_of_touch) (simp add: rec_of_def)

lemma kind_view_touch [simp]: "kind_view (touch g dm) g' c k = kind_view dm g' c k"
  by (simp add: kind_view_def)

lemma has_record_touch [simp]: "has_record (touch g dm) g' \<longleftrightarrow> has_record dm g' \<or> g' = g"
  by (auto simp: has_record_def map_of_touch)

lemma has_sent_eq:
  "has_notification_been_sent g c k dm =
     ((case kind_view dm g c k of None \<Rightarrow> Inl KeyError | Some (s, m) \<Rightarrow> Inr m), touch g dm)"
  by (simp add: has_notification_been_sent_def get_guild_notifications_eq kind_view_def
      split: option.splits)

lemma mark_fst:
  "fst (mark_notification_sent g c k dm) =
     (case kind_view dm g c k of None \<Rightarrow> Inl KeyError
      | Some (s, m) \<Rightarrow> if s then Inr () else Inl AttributeError)"
  by (simp add: mark_notification_sent_def get_guild_notifications_eq kind_view_def
      split: option.splits id_coll.splits)

lemma mark_eq:
  "mark_notification_sent g c k dm =
     ((case kind_view dm g c k of None \<Rightarrow> Inl KeyError
       | Some (s, m) \<Rightarrow> if s then Inr () else Inl AttributeError), add_mark g c k dm)"
  using mark_fst [of g c k dm] by (simp add: add_mark_def prod_eq_iff)

lemma add_mark_fields [simp]:
  "guild_configs (add_mark g c k dm) = guild_configs dm"
  "guild_ctf_status (add_mark g c k dm) = guild_ctf_status dm"
  "ctf_cache (add_mark g c k dm) = ctf_cache dm"
  by (simp_all add: add_mark_def mark_notification_sent_def get_guild_notifications_eq
      split: option.splits id_coll.splits)

lemma map_of_add_mark:
  "map_of (sent_notifications (add_mark g c k dm)) key =
     (if key = IntKey g then
        Some (case map_of (rec_of dm g) k of
                Some (PySet S) \<Rightarrow> AList.update k (PySet (finsert c S)) (rec_of dm g)
              | _ \<Rightarrow> rec_of dm g)
      else map_of (sent_notifications dm) key)"
  by (auto simp: add_mark_def mark_notification_sent_def get_guild_notifications_eq
      update_conv' map_of_touch split: option.splits id_coll.splits)

lemma has_record_add_mark [simp]: "has_record (add_mark g c k dm) g' \<longleftrightarrow> has_record dm g' \<or> g' = g"
  by (auto simp: has_record_def map_of_add_mark)

lemma rec_of_add_mark:
  "rec_of (add_mark g c k dm) g' =
     (if g' = g then
        (case map_of (rec_of dm g) k of
           Some (PySet S) \<Rightarrow> AList.update k (PySet (finsert c S)) (rec_of dm g)
         | _ \<Rightarrow> rec_of dm g)
      else rec_of dm g')"
  by (simp add: rec_of_def [of "add_mark g c k dm"] map_of_add_mark) (simp add: rec_of_def)

lemma kind_view_add_mark:
  "kind_view (add_mark g c k dm) g' c' k' =
     (if g' = g \<and> c' = c \<and> k' = k \<and> (\<exists>m. kind_view dm g c k = Some (True, m)) then Some (True, True)
      else kind_view dm g' c' k')"
  by (auto simp: kind_view_def rec_of_add_mark update_conv' split: option.splits id_coll.splits)

lemma get_guild_config_eq:
  "map_of (guild_configs dm) g = Some cfg \<Longrightarrow> get_guild_config g dm = (cfg, dm)"
  by (simp add: get_guild_config_def)

lemma get_guild_setting_eq:
  "map_of (guild_configs dm) g = Some cfg \<Longrightarrow> get_guild_setting g name dm = (setting_of cfg name, dm)"
  by (simp add: get_guild_setting_def get_guild_config_eq setting_of_def)

lemma get_guild_channel_id_eq:
  "map_of (guild_configs dm) g = Some cfg \<Longrightarrow>
   get_guild_channel_id g dm = ((if setup_complete cfg then channel_id cfg else None), dm)"
  by (simp add: get_guild_channel_id_def is_guild_setup_complete_def get_guild_config_eq)

subsection \<open>One step of the pass\<close>

lemma step_frame_refl: "step_frame g False dm dm []"
  by (simp add: step_frame_def)

lemma send_guild_notification_spec:
  assumes "map_of (guild_configs dm) g = Some cfg" and "kind_view dm g c k = Some (is_set, False)"
    and "has_record dm g"
  shows "\<exists>dm'. send_guild_notification B g c ev k dm
           = (fst (d_notify B (primary_channel cfg) g c ev k (kind_view dm g c)), dm',
              snd (d_notify B (primary_channel cfg) g c ev k (kind_view dm g c)))
         \<and> step_frame g True dm dm' (snd (d_notify B (primary_channel cfg) g c ev k (kind_view dm g c)))"
  using assms
  by (auto simp: send_guild_notification_def get_guild_channel_id_eq d_notify_def d_deliver_def
      primary_channel_def mark_eq step_frame_def kind_view_add_mark touch_id
      split: option.splits)

lemma send_ctf_channel_reminder_spec:
  assumes "map_of (guild_configs dm) g = Some cfg" and "kind_view dm g c ''channel_1h'' = Some (is_set, False)"
    and "has_record dm g"
  shows "\<exists>dm'. (case send_ctf_channel_reminder B g c ev dm of
               (Inl e, dm2, fx) \<Rightarrow> (Inl e, dm2, fx)
             | (Inr delivered, dm2, fx) \<Rightarrow>
                 if delivered then
                   (case mark_notification_sent g c ''channel_1h'' dm2 of
                      (Inl e, dm3) \<Rightarrow> (Inl e, dm3, fx)
                    | (Inr u, dm3) \<Rightarrow> (Inr (), dm3, fx @ [Mark g c ''channel_1h'']))
                 else (Inr (), dm2, fx))
           = (fst (d_notify B (map_of (ctf_channels cfg) c) g c ev ''channel_1h'' (kind_view dm g c)), dm',
              snd (d_notify B (map_of (ctf_channels cfg) c) g c ev ''channel_1h'' (kind_view dm g c)))
         \<and> step_frame g True dm dm'
              (snd (d_notify B (map_of (ctf_channels cfg) c) g c ev ''channel_1h'' (kind_view dm g c)))"
  using assms
  by (auto simp: send_ctf_channel_reminder_def get_guild_config_eq d_notify_def d_deliver_def
      mark_eq step_frame_def kind_view_add_mark touch_id
      split: option.splits)

lemma step_frame_touch: "step_frame g True dm (touch g dm) []"
  by (simp add: step_frame_def)

lemma step_frame_after_touch:
  "step_frame g True (touch g dm) dm' fx \<Longrightarrow> step_frame g True dm dm' fx"
  by (auto simp: step_frame_def touch_id)

lemma notify_block_spec:
  assumes cfg: "map_of (guild_configs dm) g = Some cfg"
  shows "\<exists>dm'. (case has_notification_been_sent g c k dm of
               (Inl e, dm2) \<Rightarrow> (Inl e, dm2, [])
             | (Inr sent, dm2) \<Rightarrow>
                 if \<not> sent then send_guild_notification B g c ev k dm2 else (Inr (), dm2, []))
           = (fst (d_notify B (primary_channel cfg) g c ev k (kind_view dm g c)), dm',
              snd (d_notify B (primary_channel cfg) g c ev k (kind_view dm g c)))
         \<and> step_frame g True dm dm'
              (snd (d_notify B (primary_channel cfg) g c ev k (kind_view dm g c)))"
proof (cases "kind_view dm g c k")
  case None
  then show ?thesis by (simp add: has_sent_eq d_notify_def step_frame_touch)
next
  case (Some sm)
  obtain is_set sent where sm: "sm = (is_set, sent)" by (cases sm)
  show ?thesis
  proof (cases sent)
    case True
    then show ?thesis using Some sm by (simp add: has_sent_eq d_notify_def step_frame_touch)
  next
    case False
    have c1: "map_of (guild_configs (touch g dm)) g = Some cfg" using cfg by simp
    have c2: "kind_view (touch g dm) g c k = Some (is_set, False)" using Some sm False by simp
    have c3: "has_record (touch g dm) g" by simp
    have v: "kind_view (touch g dm) g c = kind_view dm g c" by (rule ext) simp
    from send_guild_notification_spec [OF c1 c2 c3, where B = B and ev = ev]
    obtain dm' where
      "send_guild_notification B g c ev k (touch g dm)
         = (fst (d_notify B (primary_channel cfg) g c ev k (kind_view dm g c)), dm',
            snd (d_notify B (primary_channel cfg) g c ev k (kind_view dm g c)))"
      and "step_frame g True (touch g dm) dm'
            (snd (d_notify B (primary_channel cfg) g c ev k (kind_view dm g c)))"
      unfolding v by blast
    then show ?thesis
      using Some sm False by (auto simp: has_sent_eq dest: step_frame_after_touch)
  qed
qed

lemma reminder_block_spec:
  assumes cfg: "map_of (guild_configs dm) g = Some cfg"
  shows "\<exists>dm'. (case has_notification_been_sent g c ''channel_1h'' dm of
               (Inl e, dm1) \<Rightarrow> (Inl e, dm1, [])
             | (Inr sent, dm1) \<Rightarrow>
                 if \<not> sent then
                   (case send_ctf_channel_reminder B g c ev dm1 of
                      (Inl e, dm2, fx) \<Rightarrow> (Inl e, dm2, fx)
                    | (Inr delivered, dm2, fx) \<Rightarrow>
                        if delivered then
                          (case mark_notification_sent g c ''channel_1h'' dm2 of
                             (Inl e, dm3) \<Rightarrow> (Inl e, dm3, fx)
                           | (Inr u, dm3) \<Rightarrow> (Inr (), dm3, fx @ [Mark g c ''channel_1h'']))
                        else (Inr (), dm2, fx))
                 else (Inr (), dm1, []))
           = (fst (d_notify B (map_of (ctf_channels cfg) c) g c ev ''channel_1h'' (kind_view dm g c)), dm',
              snd (d_notify B (map_of (ctf_channels cfg) c) g c ev ''channel_1h'' (kind_view dm g c)))
         \<and> step_frame g True dm dm'
              (snd (d_notify B (map_of (ctf_channels cfg) c) g c ev ''channel_1h'' (kind_view dm g c)))"
proof (cases "kind_view dm g c ''channel_1h''")
  case None
  then show ?thesis by (simp add: has_sent_eq d_notify_def step_frame_touch)
next
  case (Some sm)
  obtain is_set sent where sm: "sm = (is_set, sent)" by (cases sm)
  show ?thesis
  proof (cases sent)
    case True
    then show ?thesis using Some sm by (simp add: has_sent_eq d_notify_def step_frame_touch)
  next
    case False
    have c1: "map_of (guild_configs (touch g dm)) g = Some cfg" using cfg by simp
    have c2: "kind_view (touch g dm) g c ''channel_1h'' = Some (is_set, False)"
      using Some sm False by simp
    have c3: "has_record (touch g dm) g" by simp
    have v: "kind_view (touch g dm) g c = kind_view dm g c" by (rule ext) simp
    from send_ctf_channel_reminder_spec [OF c1 c2 c3, where B = B and ev = ev]
    obtain dm' where
      "(case send_ctf_channel_reminder B g c ev (touch g dm) of
               (Inl e, dm2, fx) \<Rightarrow> (Inl e, dm2, fx)
             | (Inr delivered, dm2, fx) \<Rightarrow>
                 if delivered then
                   (case mark_notification_sent g c ''channel_1h'' dm2 of
                      (Inl e, dm3) \<Rightarrow> (Inl e, dm3, fx)
                    | (Inr u, dm3) \<Rightarrow> (Inr (), dm3, fx @ [Mark g c ''channel_1h'']))
                 else (Inr (), dm2, fx))
         = (fst (d_notify B (map_of (ctf_channels cfg) c) g c ev ''channel_1h'' (kind_view dm g c)), dm',
            snd (d_notify B (map_of (ctf_channels cfg) c) g c ev ''channel_1h'' (kind_view dm g c)))"
      and "step_frame g True (touch g dm) dm'
            (snd (d_notify B (map_of (ctf_channels cfg) c) g c ev ''channel_1h'' (kind_view dm g c)))"
      unfolding v by blast
    then show ?thesis
      using Some sm False by (auto simp: has_sent_eq dest: step_frame_after_touch)
  qed
qed

lemma check_1h_spec:
  assumes cfg: "map_of (guild_configs dm) g = Some cfg"
  shows "\<exists>dm'. check_1h B g c ev h dm
           = (fst (d_1h B cfg g c ev h (kind_view dm g c)), dm', snd (d_1h B cfg g c ev h (kind_view dm g c)))
         \<and> step_frame g (on_1h cfg h) dm dm' (snd (d_1h B cfg g c ev h (kind_view dm g c)))"
proof (cases "on_1h cfg h")
  case True
  then show ?thesis
    using notify_block_spec [OF cfg, where c = c and k = "''1h''" and B = B and ev = ev]
    by (simp add: check_1h_def d_1h_def on_1h_def get_guild_setting_eq [OF cfg])
next
  case False
  then show ?thesis
    by (auto simp: check_1h_def d_1h_def on_1h_def get_guild_setting_eq [OF cfg] step_frame_refl)
qed

lemma check_primary_spec:
  assumes cfg: "map_of (guild_configs dm) g = Some cfg"
  shows "\<exists>dm'. check_primary B g c ev h dm
           = (fst (d_primary B cfg g c ev h (kind_view dm g c)), dm',
              snd (d_primary B cfg g c ev h (kind_view dm g c)))
         \<and> step_frame g (on_24h cfg h \<or> on_1h cfg h) dm dm'
              (snd (d_primary B cfg g c ev h (kind_view dm g c)))"
proof (cases "on_24h cfg h")
  case True
  then show ?thesis
    using notify_block_spec [OF cfg, where c = c and k = "''24h''" and B = B and ev = ev]
    by (simp add: check_primary_def d_primary_def on_24h_def get_guild_setting_eq [OF cfg])
next
  case False
  then have "check_primary B g c ev h dm = check_1h B g c ev h dm"
    by (auto simp: check_primary_def on_24h_def get_guild_setting_eq [OF cfg])
  then show ?thesis
    using False check_1h_spec [OF cfg, where B = B and c = c and ev = ev and h = h] by (simp add: d_primary_def)
qed

lemma check_channel_reminder_spec:
  assumes cfg: "map_of (guild_configs dm) g = Some cfg"
  shows "\<exists>dm'. check_channel_reminder P B g c ev h dm
           = (fst (d_reminder P B cfg (guild_ctf_status dm) g c ev h (kind_view dm g c)), dm',
              snd (d_reminder P B cfg (guild_ctf_status dm) g c ev h (kind_view dm g c)))
         \<and> step_frame g (on_reminder P (guild_ctf_status dm) g c h) dm dm'
              (snd (d_reminder P B cfg (guild_ctf_status dm) g c ev h (kind_view dm g c)))"
proof (cases "on_reminder P (guild_ctf_status dm) g c h")
  case True
  then show ?thesis
    using reminder_block_spec [OF cfg, where c = c and B = B and ev = ev]
    by (simp add: check_channel_reminder_def d_reminder_def on_reminder_def)
next
  case False
  then show ?thesis
    by (auto simp: check_channel_reminder_def d_reminder_def on_reminder_def step_frame_refl)
qed

lemma check_event_spec:
  assumes cfg: "map_of (guild_configs dm) g = Some cfg"
  shows "\<exists>dm'. check_event P B now g ce dm
           = (fst (d_event P B now cfg (guild_ctf_status dm) g ce (kind_view dm g (fst ce))), dm',
              snd (d_event P B now cfg (guild_ctf_status dm) g ce (kind_view dm g (fst ce))))
         \<and> step_frame g (t_event P now cfg (guild_ctf_status dm) g ce) dm dm'
              (snd (d_event P B now cfg (guild_ctf_status dm) g ce (kind_view dm g (fst ce))))"
proof -
  obtain c ev where ce: "ce = (c, ev)" by (cases ce)
  show ?thesis
  proof (cases "start_of ev")
    case None
    then show ?thesis
      by (auto simp: ce check_event_def d_event_def t_event_def start_of_def step_frame_refl
          split: option.splits if_splits)
  next
    case (Some ts)
    then have p: "parse_ctf_time_to_timestamp (ev_start ev) = Some ts" "ts \<noteq> 0"
      by (auto simp: start_of_def split: option.splits if_splits)
    show ?thesis
    proof (cases "fromtimestamp_ok ts")
      case False
      then show ?thesis
        using Some p by (simp add: ce check_event_def d_event_def t_event_def step_frame_refl)
    next
      case True
      show ?thesis
      proof (cases "should_send_notification P (guild_ctf_status dm) g c")
        case True
        then show ?thesis
          using Some p \<open>fromtimestamp_ok ts\<close> check_primary_spec [OF cfg, where B = B and c = c and ev = ev and h = "hours_until ts now"]
          by (simp add: ce check_event_def d_event_def t_event_def)
      next
        case False
        then show ?thesis
          using Some p \<open>fromtimestamp_ok ts\<close>
            check_channel_reminder_spec [OF cfg, where P = P and B = B and c = c and ev = ev and h = "hours_until ts now"]
          by (simp add: ce check_event_def d_event_def t_event_def)
      qed
    qed
  qed
qed

subsection \<open>The shape of a trace\<close>

lemma paired_append: "paired B fx1 \<Longrightarrow> send_then_mark B fx2 \<Longrightarrow> send_then_mark B (fx1 @ fx2)"
  by (induction B fx1 rule: paired.induct) auto


lemma paired_send_then_mark: "paired B fx \<Longrightarrow> send_then_mark B fx"
  using paired_append [of B fx "[]"] by simp

lemma d_deliver_cases:
  "d_deliver B ch g c ev k s = (Inr (), [])
   \<or> d_deliver B ch g c ev k s = (Inl KeyError, [])
   \<or> d_deliver B ch g c ev k s = (Inl DeliveryError, [Send ch g c k])
   \<or> (channel_send B ch c k \<and> d_deliver B ch g c ev k s = (Inr (), [Send ch g c k, Mark g c k]))
   \<or> d_deliver B ch g c ev k s = (Inl AttributeError, [Send ch g c k])"
  by (simp add: d_deliver_def)

lemma d_notify_cases:
  "snd (d_notify B tgt g c ev k v) = []
   \<or> (\<exists>ch s. tgt = Some ch \<and> v k = Some (s, False) \<and>
        ((\<exists>e. d_notify B tgt g c ev k v = (Inl e, [Send ch g c k]))
         \<or> (channel_send B ch c k \<and> s \<and>
              d_notify B tgt g c ev k v = (Inr (), [Send ch g c k, Mark g c k]))))"
  by (auto simp: d_notify_def d_deliver_def split: option.splits)


lemma d_event_cases:
  "snd (d_event P B now cfg st g ce v) = []
   \<or> (\<exists>ch k s. v k = Some (s, False) \<and>
        ((\<exists>e. d_event P B now cfg st g ce v = (Inl e, [Send ch g (fst ce) k]))
         \<or> (channel_send B ch (fst ce) k \<and> s \<and>
              d_event P B now cfg st g ce v = (Inr (), [Send ch g (fst ce) k, Mark g (fst ce) k]))))"
proof -
  have n: "\<And>tgt k. snd (d_notify B tgt g (fst ce) (snd ce) k v) = []
   \<or> (\<exists>ch s. v k = Some (s, False) \<and>
        ((\<exists>e. d_notify B tgt g (fst ce) (snd ce) k v = (Inl e, [Send ch g (fst ce) k]))
         \<or> (channel_send B ch (fst ce) k \<and> s \<and>
              d_notify B tgt g (fst ce) (snd ce) k v = (Inr (), [Send ch g (fst ce) k, Mark g (fst ce) k]))))"
    using d_notify_cases by blast
  show ?thesis
    using n [of "primary_channel cfg" "''24h''"] n [of "primary_channel cfg" "''1h''"]
      n [of "map_of (ctf_channels cfg) (fst ce)" "''channel_1h''"]
    by (simp add: d_event_def d_primary_def d_1h_def d_reminder_def split: option.splits) blast
qed


lemma d_event_marks:
  "Mark g' c' k' \<in> set (snd (d_event P B now cfg st g ce v)) \<Longrightarrow> g' = g \<and> c' = fst ce"
  using d_event_cases [of P B now cfg st g ce v] by auto

lemma d_event_sends:
  "Send ch g' c' k' \<in> set (snd (d_event P B now cfg st g ce v)) \<Longrightarrow>
   g' = g \<and> c' = fst ce \<and> (\<exists>s. v k' = Some (s, False))"
  using d_event_cases [of P B now cfg st g ce v] by auto




subsection \<open>The loops\<close>

lemma pass_frame_refl: "pass_frame dm dm []"
  by (simp add: pass_frame_def)

lemma pass_frame_trans:
  "pass_frame dm dm1 fx1 \<Longrightarrow> pass_frame dm1 dm2 fx2 \<Longrightarrow> pass_frame dm dm2 (fx1 @ fx2)"
  by (auto simp: pass_frame_def)

lemma step_pass_frame: "step_frame g t dm dm' fx \<Longrightarrow> pass_frame dm dm' fx"
  by (auto simp: step_frame_def pass_frame_def)

lemma pass_frame_config: "pass_frame dm dm' fx \<Longrightarrow> config_of dm' g = config_of dm g"
  by (simp add: pass_frame_def config_of_def)

lemma pass_frame_touches: "pass_frame dm dm' fx \<Longrightarrow> touches P now dm' g ce = touches P now dm g ce"
  by (simp add: touches_def pass_frame_config) (simp add: pass_frame_def)

lemma pass_frame_dec:
  assumes "pass_frame dm dm' fx"
  shows "dec P B now dm' g ce = d_event P B now (config_of dm g) (guild_ctf_status dm) g ce
           (marked_view g (fst ce) fx (kind_view dm g (fst ce)))"
proof -
  have "kind_view dm' g (fst ce) = marked_view g (fst ce) fx (kind_view dm g (fst ce))"
    using assms by (intro ext) (simp add: pass_frame_def marked_view_def)
  then show ?thesis
    using assms by (simp add: dec_def pass_frame_config [OF assms]) (simp add: pass_frame_def)
qed

lemma marked_view_none: "(\<forall>k. Mark g c k \<notin> set fx) \<Longrightarrow> marked_view g c fx v = v"
  by (auto simp: marked_view_def)

lemma pass_frame_dec_same:
  "pass_frame dm dm' fx \<Longrightarrow> (\<forall>k. Mark g (fst ce) k \<notin> set fx) \<Longrightarrow>
   dec P B now dm' g ce = dec P B now dm g ce"
  by (simp add: pass_frame_dec marked_view_none) (simp add: dec_def)

lemma dec_marks: "Mark g' c' k' \<in> set (snd (dec P B now dm g ce)) \<Longrightarrow> g' = g \<and> c' = fst ce"
  unfolding dec_def by (rule d_event_marks)

lemma check_event_step:
  assumes "map_of (guild_configs dm) g \<noteq> None"
  obtains dm' where
    "check_event P B now g ce dm = (fst (dec P B now dm g ce), dm', snd (dec P B now dm g ce))"
    "step_frame g (touches P now dm g ce) dm dm' (snd (dec P B now dm g ce))"
proof -
  obtain cfg where cfg: "map_of (guild_configs dm) g = Some cfg" using assms by blast
  then have c: "config_of dm g = cfg" by (simp add: config_of_def)
  from check_event_spec [OF cfg, where P = P and B = B and now = now and ce = ce]
  show ?thesis using that by (auto simp: dec_def touches_def c)
qed

lemma check_events_spec:
  assumes "map_of (guild_configs dm) g \<noteq> None" and "distinct (map fst ces)"
    and "check_events P B now g ces dm = (r, dm', fx)"
  shows "pass_frame dm dm' fx
     \<and> set fx \<subseteq> (\<Union>ce\<in>set ces. set (snd (dec P B now dm g ce)))
     \<and> (r = Inr () \<longrightarrow>
          set fx = (\<Union>ce\<in>set ces. set (snd (dec P B now dm g ce)))
          \<and> (\<forall>ce\<in>set ces. fst (dec P B now dm g ce) = Inr ()
                \<and> (touches P now dm g ce \<longrightarrow> has_record dm' g)))"
  using assms
proof (induction ces arbitrary: dm r dm' fx)
  case Nil
  then show ?case by (simp add: pass_frame_refl)
next
  case (Cons ce ces)
  obtain dm1 where
    step: "check_event P B now g ce dm = (fst (dec P B now dm g ce), dm1, snd (dec P B now dm g ce))"
    and sf: "step_frame g (touches P now dm g ce) dm dm1 (snd (dec P B now dm g ce))"
    using check_event_step [OF Cons.prems(1)] by blast
  have pf: "pass_frame dm dm1 (snd (dec P B now dm g ce))" by (rule step_pass_frame [OF sf])
  show ?case
  proof (cases "fst (dec P B now dm g ce)")
    case (Inl e)
    then have "r = Inl e" "dm' = dm1" "fx = snd (dec P B now dm g ce)"
      using Cons.prems(3) step by auto
    then show ?thesis using pf by auto
  next
    case (Inr u)
    obtain r2 dm2 fx2 where rest: "check_events P B now g ces dm1 = (r2, dm2, fx2)"
      by (metis prod_cases3)
    have res: "r = r2" "dm' = dm2" "fx = snd (dec P B now dm g ce) @ fx2"
      using Cons.prems(3) step Inr rest by auto
    have cfg1: "map_of (guild_configs dm1) g \<noteq> None" using pf Cons.prems(1) by (simp add: pass_frame_def)
    have d: "distinct (map fst ces)" using Cons.prems(2) by simp
    note ih = Cons.IH [OF cfg1 d rest]
    have same: "\<And>ce'. ce' \<in> set ces \<Longrightarrow> dec P B now dm1 g ce' = dec P B now dm g ce'"
    proof -
      fix ce' assume "ce' \<in> set ces"
      then have "fst ce' \<in> fst ` set ces" by (rule imageI)
      moreover have "fst ce \<notin> fst ` set ces" using Cons.prems(2) by simp
      ultimately have "fst ce' \<noteq> fst ce" by metis
      then have "\<forall>k. Mark g (fst ce') k \<notin> set (snd (dec P B now dm g ce))"
        using dec_marks by blast
      then show "dec P B now dm1 g ce' = dec P B now dm g ce'"
        by (rule pass_frame_dec_same [OF pf])
    qed
    have t1: "\<And>ce'. touches P now dm1 g ce' = touches P now dm g ce'"
      by (rule pass_frame_touches [OF pf])
    have hr: "touches P now dm g ce \<Longrightarrow> has_record dm2 g"
    proof -
      assume "touches P now dm g ce"
      then have "has_record dm1 g" using sf by (simp add: step_frame_def)
      then show "has_record dm2 g" using ih by (simp add: pass_frame_def)
    qed
    have a: "pass_frame dm dm' fx" using pf ih res by (auto intro: pass_frame_trans)
    have b: "set fx \<subseteq> (\<Union>ce\<in>set (ce # ces). set (snd (dec P B now dm g ce)))"
      using ih same res by auto
    have c: "r = Inr () \<longrightarrow>
          set fx = (\<Union>ce\<in>set (ce # ces). set (snd (dec P B now dm g ce)))
          \<and> (\<forall>ce\<in>set (ce # ces). fst (dec P B now dm g ce) = Inr ()
                \<and> (touches P now dm g ce \<longrightarrow> has_record dm' g))"
      using ih same res Inr hr t1 by auto
    show ?thesis using a b c by blast
  qed
qed


subsection \<open>The whole pass\<close>

lemma pass_effects_Cons:
  "pass_effects P B now dm (g # gids) =
     (if get_guild B g then (\<Union>ce\<in>set (ctf_cache dm). set (snd (dec P B now dm g ce))) else {})
     \<union> pass_effects P B now dm gids"
  by (auto simp: pass_effects_def)

lemma pass_effects_same:
  assumes pf: "pass_frame dm dm1 fx1" and m: "\<forall>g' c' k'. Mark g' c' k' \<in> set fx1 \<longrightarrow> g' \<notin> set gids"
  shows "pass_effects P B now dm1 gids = pass_effects P B now dm gids"
proof -
  have "\<And>g ce. g \<in> set gids \<Longrightarrow> dec P B now dm1 g ce = dec P B now dm g ce"
    using m by (intro pass_frame_dec_same [OF pf]) blast
  moreover have "ctf_cache dm1 = ctf_cache dm" using pf by (simp add: pass_frame_def)
  ultimately show ?thesis by (simp add: pass_effects_def)
qed

lemma pass_clean_same:
  assumes pf: "pass_frame dm dm1 fx1" and m: "\<forall>g' c' k'. Mark g' c' k' \<in> set fx1 \<longrightarrow> g' \<notin> set gids"
  shows "pass_clean P B now dm1 dm' gids = pass_clean P B now dm dm' gids"
proof -
  have "\<And>g ce. g \<in> set gids \<Longrightarrow> dec P B now dm1 g ce = dec P B now dm g ce"
    using m by (intro pass_frame_dec_same [OF pf]) blast
  moreover have "ctf_cache dm1 = ctf_cache dm" using pf by (simp add: pass_frame_def)
  moreover have "\<And>g ce. touches P now dm1 g ce = touches P now dm g ce"
    by (rule pass_frame_touches [OF pf])
  ultimately show ?thesis by (simp add: pass_clean_def)
qed

lemma check_guilds_spec:
  assumes "\<forall>g\<in>set gids. map_of (guild_configs dm) g \<noteq> None" and "distinct gids"
    and "distinct (map fst (ctf_cache dm))"
    and "check_guilds P B now gids dm = (r, dm', fx)"
  shows "pass_frame dm dm' fx
     \<and> set fx \<subseteq> pass_effects P B now dm gids
     \<and> (r = Inr () \<longrightarrow> set fx = pass_effects P B now dm gids \<and> pass_clean P B now dm dm' gids)"
  using assms
proof (induction gids arbitrary: dm r dm' fx)
  case Nil
  then show ?case by (simp add: pass_frame_refl pass_effects_def pass_clean_def)
next
  case (Cons g gids)
  have cfgs: "\<forall>g\<in>set gids. map_of (guild_configs dm) g \<noteq> None" using Cons.prems(1) by simp
  have dg: "distinct gids" "g \<notin> set gids" using Cons.prems(2) by auto
  show ?case
  proof (cases "get_guild B g")
    case False
    then have run: "check_guilds P B now gids dm = (r, dm', fx)" using Cons.prems(4) by simp
    note ih = Cons.IH [OF cfgs dg(1) Cons.prems(3) run]
    show ?thesis using ih False by (simp add: pass_effects_Cons pass_clean_def)
  next
    case True
    obtain r1 dm1 fx1 where ev: "check_events P B now g (ctf_cache dm) dm = (r1, dm1, fx1)"
      by (metis prod_cases3)
    have cfg: "map_of (guild_configs dm) g \<noteq> None" using Cons.prems(1) by simp
    note es = check_events_spec [OF cfg Cons.prems(3) ev]
    have pf1: "pass_frame dm dm1 fx1" using es by blast
    have sub1: "set fx1 \<subseteq> (\<Union>ce\<in>set (ctf_cache dm). set (snd (dec P B now dm g ce)))"
      using es by blast
    have marks1: "\<forall>g' c' k'. Mark g' c' k' \<in> set fx1 \<longrightarrow> g' \<notin> set gids"
      using sub1 dec_marks dg(2) by fastforce
    show ?thesis
    proof (cases r1)
      case (Inl e)
      then have "r = Inl e" "dm' = dm1" "fx = fx1" using Cons.prems(4) True ev by auto
      then show ?thesis using pf1 sub1 True by (auto simp: pass_effects_Cons)
    next
      case (Inr u)
      obtain r2 dm2 fx2 where rest: "check_guilds P B now gids dm1 = (r2, dm2, fx2)"
        by (metis prod_cases3)
      have res: "r = r2" "dm' = dm2" "fx = fx1 @ fx2" using Cons.prems(4) True ev Inr rest by auto
      have cfgs1: "\<forall>g\<in>set gids. map_of (guild_configs dm1) g \<noteq> None"
        using cfgs pf1 by (simp add: pass_frame_def)
      have dc1: "distinct (map fst (ctf_cache dm1))" using Cons.prems(3) pf1 by (simp add: pass_frame_def)
      note ih = Cons.IH [OF cfgs1 dg(1) dc1 rest]
      have pf2: "pass_frame dm1 dm2 fx2" using ih by blast
      have eff: "pass_effects P B now dm1 gids = pass_effects P B now dm gids"
        by (rule pass_effects_same [OF pf1 marks1])
      have cl: "pass_clean P B now dm1 dm2 gids = pass_clean P B now dm dm2 gids"
        by (rule pass_clean_same [OF pf1 marks1])
      have a: "pass_frame dm dm' fx" using pf1 pf2 res by (auto intro: pass_frame_trans)
      have b: "set fx \<subseteq> pass_effects P B now dm (g # gids)"
        using sub1 ih eff res True by (auto simp: pass_effects_Cons)
      have c: "r = Inr () \<longrightarrow> set fx = pass_effects P B now dm (g # gids)
                 \<and> pass_clean P B now dm dm' (g # gids)"
      proof
        assume r: "r = Inr ()"
        then have r2: "r2 = Inr ()" using res by simp
        have e1: "set fx1 = (\<Union>ce\<in>set (ctf_cache dm). set (snd (dec P B now dm g ce)))"
          and c1: "\<forall>ce\<in>set (ctf_cache dm). fst (dec P B now dm g ce) = Inr ()
                \<and> (touches P now dm g ce \<longrightarrow> has_record dm1 g)"
          using es Inr by auto
        have e2: "set fx2 = pass_effects P B now dm gids" and c2: "pass_clean P B now dm dm2 gids"
          using ih r2 eff cl by auto
        have hr: "has_record dm1 g \<Longrightarrow> has_record dm2 g" using pf2 by (simp add: pass_frame_def)
        have "pass_clean P B now dm dm2 (g # gids)"
          using c1 c2 hr by (auto simp: pass_clean_def)
        then show "set fx = pass_effects P B now dm (g # gids) \<and> pass_clean P B now dm dm' (g # gids)"
          using e1 e2 res True by (auto simp: pass_effects_Cons)
      qed
      show ?thesis using a b c by blast
    qed
  qed
qed


lemma setup_guilds_have_config:
  "\<forall>g\<in>set (get_setup_guilds dm). map_of (guild_configs dm) g \<noteq> None"
proof
  fix g assume "g \<in> set (get_setup_guilds dm)"
  then have "g \<in> fst ` set (guild_configs dm)" by (auto simp: get_setup_guilds_def)
  then show "map_of (guild_configs dm) g \<noteq> None" by (simp add: map_of_eq_None_iff)
qed

lemma setup_guilds_distinct:
  "distinct (map fst (guild_configs dm)) \<Longrightarrow> distinct (get_setup_guilds dm)"
  by (simp add: get_setup_guilds_def distinct_map_filter)

lemma setup_guilds_iff:
  "distinct (map fst (guild_configs dm)) \<Longrightarrow>
   g \<in> set (get_setup_guilds dm) \<longleftrightarrow>
     (\<exists>cfg. map_of (guild_configs dm) g = Some cfg \<and> setup_complete cfg)"
  by (force simp: get_setup_guilds_def)

lemma pass_spec:
  assumes "distinct (map fst (guild_configs dm))" and "distinct (map fst (ctf_cache dm))"
    and "check_notification_triggers P B now dm = (r, dm', fx)"
  shows "pass_frame dm dm' fx
     \<and> set fx \<subseteq> pass_effects P B now dm (get_setup_guilds dm)
     \<and> (r = Inr () \<longrightarrow> set fx = pass_effects P B now dm (get_setup_guilds dm)
           \<and> pass_clean P B now dm dm' (get_setup_guilds dm))"
  using check_guilds_spec [OF setup_guilds_have_config setup_guilds_distinct [OF assms(1)] assms(2)]
    assms(3)
  by (simp add: check_notification_triggers_def)

lemma has_sent_fst:
  "fst (has_notification_been_sent g c k dm) =
     (case kind_view dm g c k of None \<Rightarrow> Inl KeyError | Some (s, m) \<Rightarrow> Inr m)"
  by (simp add: has_sent_eq)


lemma has_sent_False: "fst (has_notification_been_sent g c k dm) = Inr False \<longleftrightarrow> (\<exists>s. kind_view dm g c k = Some (s, False))"
  by (auto simp: has_sent_fst split: option.splits)


lemma cache_entry_unique:
  "distinct (map fst ces) \<Longrightarrow> ce \<in> set ces \<Longrightarrow> ce' \<in> set ces \<Longrightarrow> fst ce = fst ce' \<Longrightarrow> ce = ce'"
  by (metis eq_key_imp_eq_value prod.collapse)

lemma dec_sends:
  "Send ch g' c' k' \<in> set (snd (dec P B now dm g ce)) \<Longrightarrow>
   g' = g \<and> c' = fst ce \<and> (\<exists>s. kind_view dm g (fst ce) k' = Some (s, False))"
  unfolding dec_def by (rule d_event_sends)

lemma dec_effect_shape:
  "e \<in> set (snd (dec P B now dm g ce)) \<Longrightarrow> \<exists>ch k. e = Send ch g (fst ce) k \<or> e = Mark g (fst ce) k"
  using d_event_cases [of P B now "config_of dm g" "guild_ctf_status dm" g ce "kind_view dm g (fst ce)"]
  by (auto simp: dec_def)

lemma pass_effects_pair:
  assumes dc: "distinct (map fst (ctf_cache dm))" and ce: "ce \<in> set (ctf_cache dm)"
    and sh: "e = Send ch g (fst ce) k \<or> e = Mark g (fst ce) k"
  shows "e \<in> pass_effects P B now dm gids
         \<longleftrightarrow> g \<in> set gids \<and> get_guild B g \<and> e \<in> set (snd (dec P B now dm g ce))"
proof
  assume a: "e \<in> pass_effects P B now dm gids"
  then obtain g2 ce2 where g2: "g2 \<in> set gids" "get_guild B g2" "ce2 \<in> set (ctf_cache dm)"
    and e: "e \<in> set (snd (dec P B now dm g2 ce2))"
    by (auto simp: pass_effects_def)
  have "g = g2 \<and> fst ce = fst ce2"
  proof (rule disjE [OF sh])
    assume "e = Send ch g (fst ce) k"
    then show ?thesis using dec_sends e by blast
  next
    assume "e = Mark g (fst ce) k"
    then show ?thesis using dec_marks e by blast
  qed
  then have "g2 = g" "ce2 = ce" using cache_entry_unique [OF dc g2(3) ce] by auto
  then show "g \<in> set gids \<and> get_guild B g \<and> e \<in> set (snd (dec P B now dm g ce))"
    using g2 e by simp
next
  assume "g \<in> set gids \<and> get_guild B g \<and> e \<in> set (snd (dec P B now dm g ce))"
  then show "e \<in> pass_effects P B now dm gids" using ce by (auto simp: pass_effects_def)
qed

lemma pass_pair:
  assumes dg: "distinct (map fst (guild_configs dm))" and dc: "distinct (map fst (ctf_cache dm))"
    and run: "check_notification_triggers P B now dm = (Inr (), dm', fx)"
    and cfg: "map_of (guild_configs dm) g = Some cfg"
    and ce: "(c, ev) \<in> set (ctf_cache dm)"
  shows "Send ch g c k \<in> set fx \<longleftrightarrow>
           setup_complete cfg \<and> get_guild B g \<and>
           Send ch g c k \<in> set (snd (d_event P B now cfg (guild_ctf_status dm) g (c, ev) (kind_view dm g c)))"
    and "setup_complete cfg \<Longrightarrow> get_guild B g \<Longrightarrow>
           fst (d_event P B now cfg (guild_ctf_status dm) g (c, ev) (kind_view dm g c)) = Inr ()"
proof -
  note ps = pass_spec [OF dg dc run]
  have fx: "set fx = pass_effects P B now dm (get_setup_guilds dm)" using ps by simp
  have cl: "pass_clean P B now dm dm' (get_setup_guilds dm)" using ps by simp
  have su: "g \<in> set (get_setup_guilds dm) \<longleftrightarrow> setup_complete cfg"
    using setup_guilds_iff [OF dg] cfg by simp
  have d: "dec P B now dm g (c, ev) = d_event P B now cfg (guild_ctf_status dm) g (c, ev) (kind_view dm g c)"
    using cfg by (simp add: dec_def config_of_def)
  show "Send ch g c k \<in> set fx \<longleftrightarrow>
           setup_complete cfg \<and> get_guild B g \<and>
           Send ch g c k \<in> set (snd (d_event P B now cfg (guild_ctf_status dm) g (c, ev) (kind_view dm g c)))"
    using pass_effects_pair [OF dc ce, where e = "Send ch g c k" and ch = ch and g = g and k = k
        and P = P and B = B and now = now and gids = "get_setup_guilds dm"]
    by (simp add: fx su d)
  show "setup_complete cfg \<Longrightarrow> get_guild B g \<Longrightarrow>
           fst (d_event P B now cfg (guild_ctf_status dm) g (c, ev) (kind_view dm g c)) = Inr ()"
  proof -
    assume "setup_complete cfg" "get_guild B g"
    then have "\<forall>ce\<in>set (ctf_cache dm). fst (dec P B now dm g ce) = Inr ()"
      using cl su by (simp add: pass_clean_def)
    then have "fst (dec P B now dm g (c, ev)) = Inr ()" using ce by blast
    then show ?thesis by (simp only: d)
  qed
qed

lemma on_1h_not_24h: "on_1h cfg h \<Longrightarrow> \<not> on_24h cfg h"
  by (simp add: on_1h_def on_24h_def)

lemma d_notify_send:
  assumes "fst (d_notify B tgt g c ev k v) = Inr ()"
  shows "Send ch g' c' k' \<in> set (snd (d_notify B tgt g c ev k v)) \<longleftrightarrow>
     g' = g \<and> c' = c \<and> k' = k \<and> (\<exists>s. v k = Some (s, False)) \<and> tgt = Some ch \<and> ch \<noteq> 0
     \<and> get_channel B ch"
  using assms by (auto simp: d_notify_def d_deliver_def split: option.splits if_splits)

lemma d_primary_send:
  assumes "fst (d_primary B cfg g c ev h v) = Inr ()"
  shows "Send ch g c k \<in> set (snd (d_primary B cfg g c ev h v)) \<longleftrightarrow>
     ((k = ''24h'' \<and> on_24h cfg h) \<or> (k = ''1h'' \<and> on_1h cfg h))
     \<and> (\<exists>s. v k = Some (s, False)) \<and> primary_channel cfg = Some ch \<and> ch \<noteq> 0 \<and> get_channel B ch"
proof (cases "on_24h cfg h")
  case True
  then have "\<not> on_1h cfg h" using on_1h_not_24h by blast
  then show ?thesis using assms True by (auto simp: d_primary_def d_notify_send)
next
  case False
  show ?thesis
  proof (cases "on_1h cfg h")
    case True
    then show ?thesis using assms False by (auto simp: d_primary_def d_1h_def d_notify_send)
  next
    case F: False
    then show ?thesis using False by (simp add: d_primary_def d_1h_def)
  qed
qed

lemma d_reminder_send:
  assumes "fst (d_reminder P B cfg st g c ev h v) = Inr ()"
  shows "Send ch g c k \<in> set (snd (d_reminder P B cfg st g c ev h v)) \<longleftrightarrow>
     k = ''channel_1h'' \<and> on_reminder P st g c h
     \<and> (\<exists>s. v k = Some (s, False)) \<and> map_of (ctf_channels cfg) c = Some ch \<and> ch \<noteq> 0
     \<and> get_channel B ch"
proof (cases "on_reminder P st g c h")
  case True
  then show ?thesis using assms by (auto simp: d_reminder_def d_notify_send)
next
  case False
  then show ?thesis by (simp add: d_reminder_def)
qed

lemma d_event_send:
  assumes "fst (d_event P B now cfg st g (c, ev) v) = Inr ()"
  shows "Send ch g c k \<in> set (snd (d_event P B now cfg st g (c, ev) v)) \<longleftrightarrow>
     (\<exists>ts. start_of ev = Some ts \<and> (\<exists>s. v k = Some (s, False)) \<and> ch \<noteq> 0 \<and> get_channel B ch
        \<and> (if should_send_notification P st g c
            then ((k = ''24h'' \<and> on_24h cfg (hours_until ts now))
                  \<or> (k = ''1h'' \<and> on_1h cfg (hours_until ts now)))
                 \<and> primary_channel cfg = Some ch
            else k = ''channel_1h'' \<and> on_reminder P st g c (hours_until ts now)
                 \<and> map_of (ctf_channels cfg) c = Some ch))"
proof (cases "start_of ev")
  case None
  then show ?thesis by (simp add: d_event_def)
next
  case (Some ts)
  have ok: "fromtimestamp_ok ts" using assms Some by (auto simp: d_event_def split: if_splits)
  show ?thesis
  proof (cases "should_send_notification P st g c")
    case True
    then have "fst (d_primary B cfg g c ev (hours_until ts now) v) = Inr ()"
      using assms Some ok by (simp add: d_event_def)
    from d_primary_send [OF this] show ?thesis
      using Some ok True by (simp add: d_event_def) blast
  next
    case False
    then have "fst (d_reminder P B cfg st g c ev (hours_until ts now) v) = Inr ()"
      using assms Some ok by (simp add: d_event_def)
    from d_reminder_send [OF this] show ?thesis
      using Some ok False by (simp add: d_event_def) blast
  qed
qed

lemma d_event_one_send:
  "Send ch g' c' k \<in> set (snd (d_event P B now cfg st g ce v)) \<Longrightarrow>
   Send ch2 g2 c2 k2 \<in> set (snd (d_event P B now cfg st g ce v)) \<Longrightarrow> ch2 = ch \<and> k2 = k"
  using d_event_cases [of P B now cfg st g ce v] by auto

subsection \<open>Send, then mark\<close>











subsection \<open>The windows\<close>

lemma start_of_parse:
  "parse_ctf_time_to_timestamp (ev_start ev) = Some ts \<Longrightarrow> (\<exists>t. start_of ev = Some t \<and> Q t) \<longleftrightarrow> ts \<noteq> 0 \<and> Q ts"
  by (auto simp: start_of_def)

lemma setting_truthy:
  "map_of (guild_configs dm) g = Some cfg \<Longrightarrow>
   truthy (fst (get_guild_setting g name dm)) = truthy (setting_of cfg name)"
  by (simp add: get_guild_setting_eq)

text \<open>
  C4, corrected. For a pass that returned normally, a tenant that completed setup with the
  24h setting on, and a cached event whose start time parses: the 24h notification goes to
  channel \<open>ch\<close> exactly when the hours until the start are in [23, 25], the kind is not
  recorded for the pair, and the gates the claim leaves out are open: the parsed timestamp is
  not 0, the client knows the guild, \<^verbatim>\<open>should_send_notification\<close> holds for the pair, and
  \<open>ch\<close> is the tenant's primary channel, not 0 and known to the client. The hours are the exact
  quotient, with no rounding.
\<close>

theorem notification_24h_fires_iff:
  assumes "distinct (map fst (guild_configs dm))" and "distinct (map fst (ctf_cache dm))"
    and "check_notification_triggers P B now dm = (Inr (), dm', fx)"
    and "map_of (guild_configs dm) g = Some cfg" and "setup_complete cfg"
    and "truthy (fst (get_guild_setting g ''notification_24h'' dm))"
    and "(c, ev) \<in> set (ctf_cache dm)"
    and "parse_ctf_time_to_timestamp (ev_start ev) = Some ts"
  shows "Send ch g c ''24h'' \<in> set fx \<longleftrightarrow>
      23 \<le> hours_until ts now \<and> hours_until ts now \<le> 25
      \<and> fst (has_notification_been_sent g c ''24h'' dm) = Inr False
      \<and> ts \<noteq> 0 \<and> get_guild B g \<and> should_send_notification P (guild_ctf_status dm) g c
      \<and> channel_id cfg = Some ch \<and> ch \<noteq> 0 \<and> get_channel B ch"
proof (cases "get_guild B g")
  case False
  then show ?thesis using pass_pair(1) [OF assms(1,2,3,4,7)] by simp
next
  case True
  note ok = pass_pair(2) [OF assms(1,2,3,4,7) assms(5) True]
  have t: "truthy (setting_of cfg ''notification_24h'')"
    using assms(6) setting_truthy [OF assms(4)] by simp
  show ?thesis
    unfolding pass_pair(1) [OF assms(1,2,3,4,7)] d_event_send [OF ok]
      start_of_parse [OF assms(8)] has_sent_False
    using True t assms(5) by (auto simp: on_24h_def primary_channel_def)
qed

theorem notification_24h_fires_iff_witness:
  "distinct (map fst (guild_configs ex_dm)) \<and> distinct (map fst (ctf_cache ex_dm))
   \<and> check_notification_triggers spec_participation ex_bot 1704067200000000 ex_dm
       = (Inr (), ex_dm_sent, [Send 100 7 ''A_1'' ''24h'', Mark 7 ''A_1'' ''24h''])
   \<and> map_of (guild_configs ex_dm) 7 = Some ex_config \<and> setup_complete ex_config
   \<and> truthy (fst (get_guild_setting 7 ''notification_24h'' ex_dm))
   \<and> (''A_1'', ex_event) \<in> set (ctf_cache ex_dm)
   \<and> parse_ctf_time_to_timestamp (ev_start ex_event) = Some 1704153600
   \<and> ((Send 100 7 ''A_1'' ''24h'' \<in> set [Send 100 7 ''A_1'' ''24h'', Mark 7 ''A_1'' ''24h'']) =
        (23 \<le> hours_until 1704153600 1704067200000000
         \<and> hours_until 1704153600 1704067200000000 \<le> 25
         \<and> fst (has_notification_been_sent 7 ''A_1'' ''24h'' ex_dm) = Inr False
         \<and> (1704153600::int) \<noteq> 0 \<and> get_guild ex_bot 7
         \<and> should_send_notification spec_participation (guild_ctf_status ex_dm) 7 ''A_1''
         \<and> channel_id ex_config = Some 100 \<and> (100::int) \<noteq> 0 \<and> get_channel ex_bot 100))
   \<and> hours_until 1704153600 1704070800000000 = 23
   \<and> snd (snd (check_notification_triggers spec_participation ex_bot 1704070800000000 ex_dm))
       = [Send 100 7 ''A_1'' ''24h'', Mark 7 ''A_1'' ''24h'']
   \<and> hours_until 1704153600 1704063600000000 = 25
   \<and> snd (snd (check_notification_triggers spec_participation ex_bot 1704063600000000 ex_dm))
       = [Send 100 7 ''A_1'' ''24h'', Mark 7 ''A_1'' ''24h'']
   \<and> hours_until 1704153600 1704070836000000 = 2299 / 100
   \<and> snd (snd (check_notification_triggers spec_participation ex_bot 1704070836000000 ex_dm)) = []
   \<and> hours_until 1704153600 1704063564000000 = 2501 / 100
   \<and> snd (snd (check_notification_triggers spec_participation ex_bot 1704063564000000 ex_dm)) = []
   \<and> snd (snd (check_notification_triggers spec_participation ex_bot 1704070800000001 ex_dm)) = []
   \<and> snd (snd (check_notification_triggers spec_participation ex_bot 1704063599999999 ex_dm)) = []"
proof -
  have h1: "distinct (map fst (guild_configs ex_dm))" by code_simp
  have h2: "distinct (map fst (ctf_cache ex_dm))" by code_simp
  have run: "check_notification_triggers spec_participation ex_bot 1704067200000000 ex_dm
       = (Inr (), ex_dm_sent, [Send 100 7 ''A_1'' ''24h'', Mark 7 ''A_1'' ''24h''])" by code_simp
  have h4: "map_of (guild_configs ex_dm) 7 = Some ex_config" by code_simp
  have h5: "setup_complete ex_config" by code_simp
  have h6: "truthy (fst (get_guild_setting 7 ''notification_24h'' ex_dm))" by code_simp
  have h7: "(''A_1'', ex_event) \<in> set (ctf_cache ex_dm)" by code_simp
  have h8: "parse_ctf_time_to_timestamp (ev_start ex_event) = Some 1704153600" by code_simp
  note t = notification_24h_fires_iff [OF h1 h2 run h4 h5 h6 h7 h8, of 100]
  have b1: "hours_until 1704153600 1704070800000000 = 23" by code_simp
  have b2: "snd (snd (check_notification_triggers spec_participation ex_bot 1704070800000000 ex_dm))
       = [Send 100 7 ''A_1'' ''24h'', Mark 7 ''A_1'' ''24h'']" by code_simp
  have b3: "hours_until 1704153600 1704063600000000 = 25" by code_simp
  have b4: "snd (snd (check_notification_triggers spec_participation ex_bot 1704063600000000 ex_dm))
       = [Send 100 7 ''A_1'' ''24h'', Mark 7 ''A_1'' ''24h'']" by code_simp
  have b5: "hours_until 1704153600 1704070836000000 = 2299 / 100" by code_simp
  have b6: "snd (snd (check_notification_triggers spec_participation ex_bot 1704070836000000 ex_dm)) = []"
    by code_simp
  have b7: "hours_until 1704153600 1704063564000000 = 2501 / 100" by code_simp
  have b8: "snd (snd (check_notification_triggers spec_participation ex_bot 1704063564000000 ex_dm)) = []"
    by code_simp
  have b9: "snd (snd (check_notification_triggers spec_participation ex_bot 1704070800000001 ex_dm)) = []"
    by code_simp
  have b10: "snd (snd (check_notification_triggers spec_participation ex_bot 1704063599999999 ex_dm)) = []"
    by code_simp
  show ?thesis
    by (intro conjI) (fact h1 h2 run h4 h5 h6 h7 h8 t b1 b2 b3 b4 b5 b6 b7 b8 b9 b10)+
qed

text \<open>
  In the window and unsent, with the setting on, yet nothing is sent: when the client does not
  know the guild, and when the tenant skipped the event.
\<close>

theorem notification_24h_fires_iff_counterexample:
  "map_of (guild_configs ex_dm) 7 = Some ex_config \<and> setup_complete ex_config
   \<and> truthy (fst (get_guild_setting 7 ''notification_24h'' ex_dm))
   \<and> parse_ctf_time_to_timestamp (ev_start ex_event) = Some 1704153600
   \<and> 23 \<le> hours_until 1704153600 1704067200000000
   \<and> hours_until 1704153600 1704067200000000 \<le> 25
   \<and> fst (has_notification_been_sent 7 ''A_1'' ''24h'' ex_dm) = Inr False
   \<and> check_notification_triggers spec_participation ex_bot_no_guild 1704067200000000 ex_dm
       = (Inr (), ex_dm, [])
   \<and> fst (has_notification_been_sent 7 ''A_1'' ''24h'' ex_dm_skipped) = Inr False
   \<and> check_notification_triggers spec_participation ex_bot 1704067200000000 ex_dm_skipped
       = (Inr (), ex_dm_skipped, [])"
  by code_simp

text \<open>
  C5, corrected. As for the 24h notification, with the window (0, 1.5] and the 1h setting:
  the 1h notification goes to channel \<open>ch\<close> exactly when the hours until the start are in the
  window, the kind is not recorded for the pair, the parsed timestamp is not 0, the client
  knows the guild, \<^verbatim>\<open>should_send_notification\<close> holds for the pair, and \<open>ch\<close> is the tenant's
  primary channel, not 0 and known to the client.
\<close>

theorem notification_1h_fires_iff:
  assumes "distinct (map fst (guild_configs dm))" and "distinct (map fst (ctf_cache dm))"
    and "check_notification_triggers P B now dm = (Inr (), dm', fx)"
    and "map_of (guild_configs dm) g = Some cfg" and "setup_complete cfg"
    and "truthy (fst (get_guild_setting g ''notification_1h'' dm))"
    and "(c, ev) \<in> set (ctf_cache dm)"
    and "parse_ctf_time_to_timestamp (ev_start ev) = Some ts"
  shows "Send ch g c ''1h'' \<in> set fx \<longleftrightarrow>
      0 < hours_until ts now \<and> hours_until ts now \<le> 3 / 2
      \<and> fst (has_notification_been_sent g c ''1h'' dm) = Inr False
      \<and> ts \<noteq> 0 \<and> get_guild B g \<and> should_send_notification P (guild_ctf_status dm) g c
      \<and> channel_id cfg = Some ch \<and> ch \<noteq> 0 \<and> get_channel B ch"
proof (cases "get_guild B g")
  case False
  then show ?thesis using pass_pair(1) [OF assms(1,2,3,4,7)] by simp
next
  case True
  note ok = pass_pair(2) [OF assms(1,2,3,4,7) assms(5) True]
  have t: "truthy (setting_of cfg ''notification_1h'')"
    using assms(6) setting_truthy [OF assms(4)] by simp
  show ?thesis
    unfolding pass_pair(1) [OF assms(1,2,3,4,7)] d_event_send [OF ok]
      start_of_parse [OF assms(8)] has_sent_False
    using True t assms(5) by (auto simp: on_1h_def primary_channel_def)
qed

theorem notification_1h_fires_iff_witness:
  "distinct (map fst (guild_configs ex_dm)) \<and> distinct (map fst (ctf_cache ex_dm))
   \<and> check_notification_triggers spec_participation ex_bot 1704150000000000 ex_dm
       = (Inr (), ex_dm_sent_1h, [Send 100 7 ''A_1'' ''1h'', Mark 7 ''A_1'' ''1h''])
   \<and> map_of (guild_configs ex_dm) 7 = Some ex_config \<and> setup_complete ex_config
   \<and> truthy (fst (get_guild_setting 7 ''notification_1h'' ex_dm))
   \<and> (''A_1'', ex_event) \<in> set (ctf_cache ex_dm)
   \<and> parse_ctf_time_to_timestamp (ev_start ex_event) = Some 1704153600
   \<and> ((Send 100 7 ''A_1'' ''1h'' \<in> set [Send 100 7 ''A_1'' ''1h'', Mark 7 ''A_1'' ''1h'']) =
        (0 < hours_until 1704153600 1704150000000000
         \<and> hours_until 1704153600 1704150000000000 \<le> 3 / 2
         \<and> fst (has_notification_been_sent 7 ''A_1'' ''1h'' ex_dm) = Inr False
         \<and> (1704153600::int) \<noteq> 0 \<and> get_guild ex_bot 7
         \<and> should_send_notification spec_participation (guild_ctf_status ex_dm) 7 ''A_1''
         \<and> channel_id ex_config = Some 100 \<and> (100::int) \<noteq> 0 \<and> get_channel ex_bot 100))
   \<and> hours_until 1704153600 1704148200000000 = 3 / 2
   \<and> snd (snd (check_notification_triggers spec_participation ex_bot 1704148200000000 ex_dm))
       = [Send 100 7 ''A_1'' ''1h'', Mark 7 ''A_1'' ''1h'']
   \<and> hours_until 1704153600 1704153600000000 = 0
   \<and> snd (snd (check_notification_triggers spec_participation ex_bot 1704153600000000 ex_dm)) = []
   \<and> snd (snd (check_notification_triggers spec_participation ex_bot 1704153599999999 ex_dm))
       = [Send 100 7 ''A_1'' ''1h'', Mark 7 ''A_1'' ''1h'']
   \<and> snd (snd (check_notification_triggers spec_participation ex_bot 1704148199999999 ex_dm)) = []"
proof -
  have h1: "distinct (map fst (guild_configs ex_dm))" by code_simp
  have h2: "distinct (map fst (ctf_cache ex_dm))" by code_simp
  have run: "check_notification_triggers spec_participation ex_bot 1704150000000000 ex_dm
       = (Inr (), ex_dm_sent_1h, [Send 100 7 ''A_1'' ''1h'', Mark 7 ''A_1'' ''1h''])" by code_simp
  have h4: "map_of (guild_configs ex_dm) 7 = Some ex_config" by code_simp
  have h5: "setup_complete ex_config" by code_simp
  have h6: "truthy (fst (get_guild_setting 7 ''notification_1h'' ex_dm))" by code_simp
  have h7: "(''A_1'', ex_event) \<in> set (ctf_cache ex_dm)" by code_simp
  have h8: "parse_ctf_time_to_timestamp (ev_start ex_event) = Some 1704153600" by code_simp
  note t = notification_1h_fires_iff [OF h1 h2 run h4 h5 h6 h7 h8, of 100]
  have b1: "hours_until 1704153600 1704148200000000 = 3 / 2" by code_simp
  have b2: "snd (snd (check_notification_triggers spec_participation ex_bot 1704148200000000 ex_dm))
       = [Send 100 7 ''A_1'' ''1h'', Mark 7 ''A_1'' ''1h'']" by code_simp
  have b3: "hours_until 1704153600 1704153600000000 = 0" by code_simp
  have b4: "snd (snd (check_notification_triggers spec_participation ex_bot 1704153600000000 ex_dm)) = []"
    by code_simp
  have b5: "snd (snd (check_notification_triggers spec_participation ex_bot 1704153599999999 ex_dm))
       = [Send 100 7 ''A_1'' ''1h'', Mark 7 ''A_1'' ''1h'']" by code_simp
  have b6: "snd (snd (check_notification_triggers spec_participation ex_bot 1704148199999999 ex_dm)) = []"
    by code_simp
  show ?thesis
    by (intro conjI) (fact h1 h2 run h4 h5 h6 h7 h8 t b1 b2 b3 b4 b5 b6)+
qed

text \<open>
  In the window and unsent, with the setting on, yet no 1h notification is sent: when the
  client resolves no channel, when it does not know the guild, and when the tenant joined
  the event (the reminder goes out in its place).
\<close>

theorem notification_1h_fires_iff_counterexample:
  "map_of (guild_configs ex_dm) 7 = Some ex_config \<and> setup_complete ex_config
   \<and> truthy (fst (get_guild_setting 7 ''notification_1h'' ex_dm))
   \<and> parse_ctf_time_to_timestamp (ev_start ex_event) = Some 1704153600
   \<and> 0 < hours_until 1704153600 1704150000000000
   \<and> hours_until 1704153600 1704150000000000 \<le> 3 / 2
   \<and> fst (has_notification_been_sent 7 ''A_1'' ''1h'' ex_dm) = Inr False
   \<and> snd (snd (check_notification_triggers spec_participation ex_bot_no_channel 1704150000000000
        ex_dm)) = []
   \<and> check_notification_triggers spec_participation ex_bot_no_guild 1704150000000000 ex_dm
       = (Inr (), ex_dm, [])
   \<and> fst (has_notification_been_sent 7 ''A_1'' ''1h'' ex_dm_joined) = Inr False
   \<and> snd (snd (check_notification_triggers spec_participation ex_bot 1704150000000000
        ex_dm_joined)) = [Send 200 7 ''A_1'' ''channel_1h'', Mark 7 ''A_1'' ''channel_1h'']"
  by code_simp

text \<open>
  C6, corrected. For a pass that returned normally, a tenant that completed setup and a
  cached event whose start time parses: the reminder goes to channel \<open>ch\<close> exactly when the
  pair is joined, the hours until the start are in (0, 1.5], the kind \<open>channel_1h\<close> is not
  recorded for the pair, \<open>ch\<close> is the channel bound to the event key, not 0 and known to the
  client, \<^verbatim>\<open>should_send_notification\<close> is false for the pair, the parsed timestamp is not 0 and
  the client knows the guild. The reminder branch is the alternative to the primary checks,
  taken only when \<^verbatim>\<open>should_send_notification\<close> is false: a pass that sends the reminder for a
  pair sends nothing else for it.
\<close>

theorem channel_reminder_fires_iff:
  assumes "distinct (map fst (guild_configs dm))" and "distinct (map fst (ctf_cache dm))"
    and "check_notification_triggers P B now dm = (Inr (), dm', fx)"
    and "map_of (guild_configs dm) g = Some cfg" and "setup_complete cfg"
    and "(c, ev) \<in> set (ctf_cache dm)"
    and "parse_ctf_time_to_timestamp (ev_start ev) = Some ts"
  shows "(Send ch g c ''channel_1h'' \<in> set fx \<longleftrightarrow>
      is_ctf_joined P (guild_ctf_status dm) g c
      \<and> 0 < hours_until ts now \<and> hours_until ts now \<le> 3 / 2
      \<and> fst (has_notification_been_sent g c ''channel_1h'' dm) = Inr False
      \<and> map_of (ctf_channels cfg) c = Some ch \<and> ch \<noteq> 0 \<and> get_channel B ch
      \<and> \<not> should_send_notification P (guild_ctf_status dm) g c \<and> ts \<noteq> 0 \<and> get_guild B g)
    \<and> (Send ch g c ''channel_1h'' \<in> set fx \<longrightarrow>
          (\<forall>ch' k. Send ch' g c k \<in> set fx \<longrightarrow> ch' = ch \<and> k = ''channel_1h''))"
proof (cases "get_guild B g")
  case False
  then show ?thesis using pass_pair(1) [OF assms(1,2,3,4,6)] by simp
next
  case True
  note ok = pass_pair(2) [OF assms(1,2,3,4,6) assms(5) True]
  have a: "Send ch g c ''channel_1h'' \<in> set fx \<longleftrightarrow>
      is_ctf_joined P (guild_ctf_status dm) g c
      \<and> 0 < hours_until ts now \<and> hours_until ts now \<le> 3 / 2
      \<and> fst (has_notification_been_sent g c ''channel_1h'' dm) = Inr False
      \<and> map_of (ctf_channels cfg) c = Some ch \<and> ch \<noteq> 0 \<and> get_channel B ch
      \<and> \<not> should_send_notification P (guild_ctf_status dm) g c \<and> ts \<noteq> 0 \<and> get_guild B g"
    unfolding pass_pair(1) [OF assms(1,2,3,4,6)] d_event_send [OF ok]
      start_of_parse [OF assms(7)] has_sent_False
    using True assms(5) by (auto simp: on_reminder_def)
  have b: "Send ch g c ''channel_1h'' \<in> set fx \<longrightarrow>
          (\<forall>ch' k. Send ch' g c k \<in> set fx \<longrightarrow> ch' = ch \<and> k = ''channel_1h'')"
    unfolding pass_pair(1) [OF assms(1,2,3,4,6)]
    using d_event_one_send by blast
  show ?thesis using a b by blast
qed

theorem channel_reminder_fires_iff_witness:
  "distinct (map fst (guild_configs ex_dm_joined)) \<and> distinct (map fst (ctf_cache ex_dm_joined))
   \<and> check_notification_triggers spec_participation ex_bot 1704150000000000 ex_dm_joined
       = (Inr (), ex_dm_reminded,
          [Send 200 7 ''A_1'' ''channel_1h'', Mark 7 ''A_1'' ''channel_1h''])
   \<and> map_of (guild_configs ex_dm_joined) 7 = Some ex_config \<and> setup_complete ex_config
   \<and> (''A_1'', ex_event) \<in> set (ctf_cache ex_dm_joined)
   \<and> parse_ctf_time_to_timestamp (ev_start ex_event) = Some 1704153600
   \<and> snd (snd (check_notification_triggers spec_participation ex_bot 1704148200000000
        ex_dm_joined)) = [Send 200 7 ''A_1'' ''channel_1h'', Mark 7 ''A_1'' ''channel_1h'']
   \<and> snd (snd (check_notification_triggers spec_participation ex_bot 1704153600000000
        ex_dm_joined)) = []
   \<and> snd (snd (check_notification_triggers spec_participation ex_bot 1704067200000000
        ex_dm_joined)) = []
   \<and> check_notification_triggers spec_participation ex_bot 1704150000000000 ex_dm_reminded
       = (Inr (), ex_dm_reminded, [])
   \<and> ((Send 200 7 ''A_1'' ''channel_1h''
          \<in> set [Send 200 7 ''A_1'' ''channel_1h'', Mark 7 ''A_1'' ''channel_1h'']) =
        (is_ctf_joined spec_participation (guild_ctf_status ex_dm_joined) 7 ''A_1''
         \<and> 0 < hours_until 1704153600 1704150000000000
         \<and> hours_until 1704153600 1704150000000000 \<le> 3 / 2
         \<and> fst (has_notification_been_sent 7 ''A_1'' ''channel_1h'' ex_dm_joined) = Inr False
         \<and> map_of (ctf_channels ex_config) ''A_1'' = Some 200 \<and> (200::int) \<noteq> 0
         \<and> get_channel ex_bot 200
         \<and> \<not> should_send_notification spec_participation (guild_ctf_status ex_dm_joined) 7 ''A_1''
         \<and> (1704153600::int) \<noteq> 0 \<and> get_guild ex_bot 7))"
proof -
  have h1: "distinct (map fst (guild_configs ex_dm_joined))" by code_simp
  have h2: "distinct (map fst (ctf_cache ex_dm_joined))" by code_simp
  have run: "check_notification_triggers spec_participation ex_bot 1704150000000000 ex_dm_joined
       = (Inr (), ex_dm_reminded,
          [Send 200 7 ''A_1'' ''channel_1h'', Mark 7 ''A_1'' ''channel_1h''])" by code_simp
  have h4: "map_of (guild_configs ex_dm_joined) 7 = Some ex_config" by code_simp
  have h5: "setup_complete ex_config" by code_simp
  have h7: "(''A_1'', ex_event) \<in> set (ctf_cache ex_dm_joined)" by code_simp
  have h8: "parse_ctf_time_to_timestamp (ev_start ex_event) = Some 1704153600" by code_simp
  note t = channel_reminder_fires_iff [OF h1 h2 run h4 h5 h7 h8, of 200]
  have b1: "snd (snd (check_notification_triggers spec_participation ex_bot 1704148200000000
        ex_dm_joined)) = [Send 200 7 ''A_1'' ''channel_1h'', Mark 7 ''A_1'' ''channel_1h'']"
    by code_simp
  have b2: "snd (snd (check_notification_triggers spec_participation ex_bot 1704153600000000
        ex_dm_joined)) = []" by code_simp
  have b3: "snd (snd (check_notification_triggers spec_participation ex_bot 1704067200000000
        ex_dm_joined)) = []" by code_simp
  have b4: "check_notification_triggers spec_participation ex_bot 1704150000000000 ex_dm_reminded
       = (Inr (), ex_dm_reminded, [])" by code_simp
  have t1: "(Send 200 7 ''A_1'' ''channel_1h''
          \<in> set [Send 200 7 ''A_1'' ''channel_1h'', Mark 7 ''A_1'' ''channel_1h'']) =
        (is_ctf_joined spec_participation (guild_ctf_status ex_dm_joined) 7 ''A_1''
         \<and> 0 < hours_until 1704153600 1704150000000000
         \<and> hours_until 1704153600 1704150000000000 \<le> 3 / 2
         \<and> fst (has_notification_been_sent 7 ''A_1'' ''channel_1h'' ex_dm_joined) = Inr False
         \<and> map_of (ctf_channels ex_config) ''A_1'' = Some 200 \<and> (200::int) \<noteq> 0
         \<and> get_channel ex_bot 200
         \<and> \<not> should_send_notification spec_participation (guild_ctf_status ex_dm_joined) 7 ''A_1''
         \<and> (1704153600::int) \<noteq> 0 \<and> get_guild ex_bot 7)"
    using t by (rule conjunct1)
  show ?thesis
    by (intro conjI) (fact h1 h2 run h4 h5 h7 h8 t1 b1 b2 b3 b4)+
qed

text \<open>
  Joined, in the window, unsent and with a bound channel, yet no reminder is sent: when the
  client does not resolve the bound channel, and when it does not know the guild.
\<close>

theorem channel_reminder_fires_iff_counterexample:
  "map_of (guild_configs ex_dm_joined) 7 = Some ex_config \<and> setup_complete ex_config
   \<and> parse_ctf_time_to_timestamp (ev_start ex_event) = Some 1704153600
   \<and> is_ctf_joined spec_participation (guild_ctf_status ex_dm_joined) 7 ''A_1''
   \<and> map_of (ctf_channels ex_config) ''A_1'' = Some 200
   \<and> 0 < hours_until 1704153600 1704150000000000
   \<and> hours_until 1704153600 1704150000000000 \<le> 3 / 2
   \<and> fst (has_notification_been_sent 7 ''A_1'' ''channel_1h'' ex_dm_joined) = Inr False
   \<and> snd (snd (check_notification_triggers spec_participation ex_bot_no_channel 1704150000000000
        ex_dm_joined)) = []
   \<and> snd (snd (check_notification_triggers spec_participation ex_bot_no_guild 1704150000000000
        ex_dm_joined)) = []"
  by code_simp

end
